theory Spec2Isabelle
  imports Main
begin

section \<open>Strings\<close>

text \<open>
  Python strings are modelled as \<open>string\<close>, with the four characters of the script
  that lie outside ASCII written as their UTF-8 bytes. The script only concatenates
  strings and tests them with \<open>startswith\<close>/\<open>endswith\<close>, which agree on code points
  and on UTF-8 bytes.
\<close>

definition bullet :: string where
  "bullet = [CHR 0xE2, CHR 0x80, CHR 0xA2]"

definition check_mark :: string where
  "check_mark = [CHR 0xE2, CHR 0x9C, CHR 0x85]"

definition cross_mark :: string where
  "cross_mark = [CHR 0xE2, CHR 0x9D, CHR 0x8C]"

definition clipboard :: string where
  "clipboard = [CHR 0xF0, CHR 0x9F, CHR 0x93, CHR 0x8B]"

definition digits :: string where
  "digits = ''0123456789''"

definition upper_letters :: string where
  "upper_letters = ''ABCDEFGHIJKLMNOPQRSTUVWXYZ''"

definition lower_letters :: string where
  "lower_letters = ''abcdefghijklmnopqrstuvwxyz''"

text \<open>The position of a character in an alphabet, if it occurs there.\<close>

fun index_of :: "char \<Rightarrow> string \<Rightarrow> nat option" where
  "index_of c [] = None"
| "index_of c (d # ds) = (if c = d then Some 0 else map_option Suc (index_of c ds))"

text \<open>\<open>str(n)\<close> for a non-negative integer: its decimal digits.\<close>

function str_nat :: "nat \<Rightarrow> string" where
  "str_nat n = (if n < 10 then [digits ! n] else str_nat (n div 10) @ [digits ! (n mod 10)])"
  by pat_completeness auto
termination
  by (relation "measure (\<lambda>n. n)") auto

declare str_nat.simps [simp del]

text \<open>\<open>s.replace(a, b)\<close> for single characters \<open>a\<close> and \<open>b\<close>.\<close>

definition str_replace :: "char \<Rightarrow> char \<Rightarrow> string \<Rightarrow> string" where
  "str_replace a b s = map (\<lambda>c. if c = a then b else c) s"

definition startswith :: "string \<Rightarrow> string \<Rightarrow> bool" where
  "startswith s p = (take (length p) s = p)"

definition endswith :: "string \<Rightarrow> string \<Rightarrow> bool" where
  "endswith s p = (length p \<le> length s \<and> drop (length s - length p) s = p)"

section \<open>Exceptions\<close>

text \<open>
  The exception classes that can arise while the script runs. Every one of them is a
  subclass of Python's \<open>Exception\<close>; the argument is the exception's message.
\<close>

datatype exn = ImportError string | ValueError string | OSError string | UnicodeEncodeError string

fun exn_message :: "exn \<Rightarrow> string" where
  "exn_message (ImportError m) = m"
| "exn_message (ValueError m) = m"
| "exn_message (OSError m) = m"
| "exn_message (UnicodeEncodeError m) = m"

fun is_ImportError :: "exn \<Rightarrow> bool" where
  "is_ImportError (ImportError m) = True"
| "is_ImportError (ValueError m) = False"
| "is_ImportError (OSError m) = False"
| "is_ImportError (UnicodeEncodeError m) = False"

text \<open>Sequencing of fallible steps: the first exception raised ends the computation.\<close>

definition and_then :: "exn + 'a \<Rightarrow> ('a \<Rightarrow> exn + 'b) \<Rightarrow> exn + 'b" where
  "and_then r f = (case r of Inl e \<Rightarrow> Inl e | Inr x \<Rightarrow> f x)"

section \<open>The spreadsheet library\<close>

text \<open>
  The part of openpyxl that the script calls: styles, cells addressed by (row, column),
  worksheets, data validations, workbooks, and the two coordinate utilities.
\<close>

record font =
  bold :: bool
  font_size :: "nat option"
  font_color :: "string option"

record pattern_fill =
  start_color :: string
  end_color :: string
  fill_type :: string

record alignment =
  horizontal :: "string option"
  vertical :: "string option"
  wrap_text :: bool

record cell =
  cvalue :: string
  cfont :: "font option"
  cfill :: "pattern_fill option"
  calignment :: "alignment option"

text \<open>A cell range: (min_col, min_row, max_col, max_row), as \<open>range_boundaries\<close> returns it.\<close>

type_synonym cell_range = "nat \<times> nat \<times> nat \<times> nat"

record data_validation =
  dv_type :: string
  formula1 :: string
  showErrorMessage :: bool
  showDropDown :: bool
  dv_error :: "string option"
  errorTitle :: "string option"
  sqref :: "cell_range list"

record worksheet =
  title :: string
  cells :: "nat \<times> nat \<rightharpoonup> cell"
  column_width :: "string \<rightharpoonup> nat"
  data_validations :: "data_validation list"

text \<open>
  A workbook: its sheets, the position of the active one, and the time of creation
  kept in its document properties.
\<close>

record workbook =
  sheets :: "worksheet list"
  active_sheet_index :: nat
  created :: nat

subsection \<open>Coordinates\<close>

text \<open>
  \<open>get_column_letter\<close>: 1 is A, 26 is Z, 27 is AA, up to 18278 (ZZZ); any other index
  raises \<open>ValueError\<close>.
\<close>

function column_letters :: "nat \<Rightarrow> string" where
  "column_letters col_idx =
     (if col_idx = 0 then []
      else if col_idx mod 26 = 0
        then column_letters (col_idx div 26 - 1) @ [upper_letters ! 25]
        else column_letters (col_idx div 26) @ [upper_letters ! (col_idx mod 26 - 1)])"
  by pat_completeness auto
termination
  by (relation "measure (\<lambda>n. n)") auto

declare column_letters.simps [simp del]

definition get_column_letter :: "nat \<Rightarrow> exn + string" where
  "get_column_letter col_idx =
     (if 1 \<le> col_idx \<and> col_idx \<le> 18278 then Inr (column_letters col_idx)
      else Inl (ValueError (''Invalid column index '' @ str_nat col_idx)))"

text \<open>
  \<open>column_index_from_string\<close> on a run of letters (either case), read in base 26 with
  digits 1 to 26; \<open>None\<close> when a character is not a letter.
\<close>

definition letter_value :: "char \<Rightarrow> nat option" where
  "letter_value c =
     (case index_of c upper_letters of
        Some i \<Rightarrow> Some (Suc i)
      | None \<Rightarrow> map_option Suc (index_of c lower_letters))"

fun column_index :: "nat \<Rightarrow> string \<Rightarrow> nat option" where
  "column_index acc [] = Some acc"
| "column_index acc (c # cs) =
     (case letter_value c of None \<Rightarrow> None | Some v \<Rightarrow> column_index (26 * acc + v) cs)"

fun row_number :: "nat \<Rightarrow> string \<Rightarrow> nat option" where
  "row_number acc [] = Some acc"
| "row_number acc (c # cs) =
     (case index_of c digits of None \<Rightarrow> None | Some v \<Rightarrow> row_number (10 * acc + v) cs)"

definition is_letter :: "char \<Rightarrow> bool" where
  "is_letter c = (letter_value c \<noteq> None)"

definition is_digit :: "char \<Rightarrow> bool" where
  "is_digit c = (index_of c digits \<noteq> None)"

definition drop_dollar :: "string \<Rightarrow> string" where
  "drop_dollar s = (case s of [] \<Rightarrow> [] | c # cs \<Rightarrow> if c = CHR ''$'' then cs else s)"

text \<open>
  One cell coordinate at the front of a string, each part optionally preceded by
  \<open>$\<close>: one to three letters, then at least one digit. Returns the column, the row and
  what follows.
\<close>

definition coordinate :: "string \<Rightarrow> (nat \<times> nat \<times> string) option" where
  "coordinate s =
     (let s1 = drop_dollar s;
          ls = takeWhile is_letter s1;
          s2 = drop_dollar (dropWhile is_letter s1);
          ds = takeWhile is_digit s2;
          rest = dropWhile is_digit s2
      in if ls = [] \<or> 3 < length ls \<or> ds = [] then None
         else (case (column_index 0 ls, row_number 0 ds) of
                 (Some c, Some r) \<Rightarrow> Some (c, r, rest)
               | _ \<Rightarrow> None))"

text \<open>
  \<open>range_boundaries\<close> for the forms \<open>A1\<close> and \<open>A1:B2\<close> (with optional \<open>$\<close>), followed
  by the check of \<open>CellRange\<close> that the minimum does not exceed the maximum. The forms
  that name only rows or only columns, which the script never writes, are rejected.
\<close>

definition range_boundaries :: "string \<Rightarrow> exn + cell_range" where
  "range_boundaries s =
     (case coordinate s of
        None \<Rightarrow> Inl (ValueError (s @ '' is not a valid coordinate or range''))
      | Some (c1, r1, rest) \<Rightarrow>
          (case rest of
             [] \<Rightarrow> Inr (c1, r1, c1, r1)
           | x # after \<Rightarrow>
               if x \<noteq> CHR '':'' then Inl (ValueError (s @ '' is not a valid coordinate or range''))
               else (case coordinate after of
                       Some (c2, r2, []) \<Rightarrow>
                         if c1 \<le> c2 \<and> r1 \<le> r2 then Inr (c1, r1, c2, r2)
                         else Inl (ValueError (s @ '' is not a valid range''))
                     | _ \<Rightarrow> Inl (ValueError (s @ '' is not a valid coordinate or range'')))))"

subsection \<open>Cells and worksheets\<close>

definition new_cell :: cell where
  "new_cell = \<lparr>cvalue = [], cfont = None, cfill = None, calignment = None\<rparr>"

definition new_sheet :: "string \<Rightarrow> worksheet" where
  "new_sheet t = \<lparr>title = t, cells = Map.empty, column_width = Map.empty, data_validations = []\<rparr>"

text \<open>
  \<open>ws.cell(row=r, column=c, value=v)\<close>: the cell at (r, c), created when the sheet
  has none there, with its value set to \<open>v\<close>. Rows and columns start at 1.
\<close>

definition ws_cell :: "nat \<Rightarrow> nat \<Rightarrow> string \<Rightarrow> worksheet \<Rightarrow> exn + worksheet" where
  "ws_cell r c v ws =
     (if r < 1 \<or> c < 1 then Inl (ValueError ''Row or column values must be at least 1'')
      else Inr (ws\<lparr>cells := (cells ws)((r, c) \<mapsto>
                  (case cells ws (r, c) of None \<Rightarrow> new_cell | Some x \<Rightarrow> x)\<lparr>cvalue := v\<rparr>)\<rparr>))"

text \<open>Assignments to the attributes of the cell object at (r, c).\<close>

definition set_font :: "nat \<Rightarrow> nat \<Rightarrow> font \<Rightarrow> worksheet \<Rightarrow> worksheet" where
  "set_font r c f ws =
     ws\<lparr>cells := (cells ws)((r, c) := map_option (\<lambda>x. x\<lparr>cfont := Some f\<rparr>) (cells ws (r, c)))\<rparr>"

definition set_fill :: "nat \<Rightarrow> nat \<Rightarrow> pattern_fill \<Rightarrow> worksheet \<Rightarrow> worksheet" where
  "set_fill r c f ws =
     ws\<lparr>cells := (cells ws)((r, c) := map_option (\<lambda>x. x\<lparr>cfill := Some f\<rparr>) (cells ws (r, c)))\<rparr>"

definition set_alignment :: "nat \<Rightarrow> nat \<Rightarrow> alignment \<Rightarrow> worksheet \<Rightarrow> worksheet" where
  "set_alignment r c a ws =
     ws\<lparr>cells := (cells ws)((r, c) := map_option (\<lambda>x. x\<lparr>calignment := Some a\<rparr>) (cells ws (r, c)))\<rparr>"

text \<open>\<open>ws.column_dimensions[letter].width = w\<close>.\<close>

definition set_width :: "string \<Rightarrow> nat \<Rightarrow> worksheet \<Rightarrow> worksheet" where
  "set_width letter w ws = ws\<lparr>column_width := (column_width ws)(letter \<mapsto> w)\<rparr>"

text \<open>The value stored at (row, column), \<open>None\<close> where the sheet has no cell.\<close>

definition cell_value :: "worksheet \<Rightarrow> nat \<Rightarrow> nat \<Rightarrow> string option" where
  "cell_value ws r c = map_option cvalue (cells ws (r, c))"

subsection \<open>Data validations\<close>

text \<open>
  \<open>DataValidation(type=t, formula1=f, showDropDown=d)\<close>. The arguments left out
  keep the defaults of the constructor: no error text, no error title, no cells, and
  \<open>showErrorMessage\<close> off.
\<close>

definition DataValidation :: "string \<Rightarrow> string \<Rightarrow> bool \<Rightarrow> data_validation" where
  "DataValidation t f d =
     \<lparr>dv_type = t, formula1 = f, showErrorMessage = False, showDropDown = d,
      dv_error = None, errorTitle = None, sqref = []\<rparr>"

text \<open>
  \<open>sheet.add_data_validation(dv)\<close> appends the validation object to the sheet's list.
  The object stays shared with the caller, who refers to it by its position there.
\<close>

definition add_data_validation :: "data_validation \<Rightarrow> worksheet \<Rightarrow> nat \<times> worksheet" where
  "add_data_validation dv ws =
     (length (data_validations ws), ws\<lparr>data_validations := data_validations ws @ [dv]\<rparr>)"

text \<open>\<open>dv.add(range_string)\<close> on the validation object at position \<open>i\<close> of the sheet.\<close>

definition dv_add :: "nat \<Rightarrow> string \<Rightarrow> worksheet \<Rightarrow> exn + worksheet" where
  "dv_add i range_string ws =
     and_then (range_boundaries range_string) (\<lambda>b.
       Inr (ws\<lparr>data_validations :=
                 (data_validations ws)[i := (data_validations ws ! i)
                    \<lparr>sqref := sqref (data_validations ws ! i) @ [b]\<rparr>]\<rparr>))"

subsection \<open>Workbooks\<close>

text \<open>
  \<open>Workbook()\<close>, called at time \<open>now\<close>, holds one sheet titled \<open>Sheet\<close>, which is
  active, and stamps its document properties with the current time. Sheet objects are
  referred to by their position in the workbook.
\<close>

definition Workbook :: "nat \<Rightarrow> workbook" where
  "Workbook now = \<lparr>sheets = [new_sheet ''Sheet''], active_sheet_index = 0, created = now\<rparr>"

definition wb_remove :: "nat \<Rightarrow> workbook \<Rightarrow> exn + workbook" where
  "wb_remove i wb =
     (if i < length (sheets wb)
      then Inr (wb\<lparr>sheets := take i (sheets wb) @ drop (Suc i) (sheets wb)\<rparr>)
      else Inl (ValueError ''list.remove(x): x not in list''))"

definition create_sheet :: "string \<Rightarrow> workbook \<Rightarrow> nat \<times> workbook" where
  "create_sheet t wb = (length (sheets wb), wb\<lparr>sheets := sheets wb @ [new_sheet t]\<rparr>)"

definition set_active :: "nat \<Rightarrow> workbook \<Rightarrow> exn + workbook" where
  "set_active i wb =
     (if i < length (sheets wb) then Inr (wb\<lparr>active_sheet_index := i\<rparr>)
      else Inl (ValueError ''Worksheet is not in the workbook''))"

text \<open>A step on the sheet at position \<open>i\<close> of the workbook.\<close>

definition on_sheet :: "nat \<Rightarrow> (worksheet \<Rightarrow> exn + worksheet) \<Rightarrow> workbook \<Rightarrow> exn + workbook" where
  "on_sheet i f wb =
     and_then (f (sheets wb ! i)) (\<lambda>ws. Inr (wb\<lparr>sheets := (sheets wb)[i := ws]\<rparr>))"

section \<open>The template generator\<close>

subsection \<open>The data of the script\<close>

definition headers :: "string list" where
  "headers =
     [''Client Email'',
      ''Recipient Name'',
      ''Recipient Phone'',
      ''Package Description'',
      ''Package Value (EGP)'',
      ''From Street'',
      ''From Details'',
      ''From City'',
      ''From Zone'',
      ''To Street'',
      ''To Details'',
      ''To City'',
      ''To Zone'',
      ''Payment Method'',
      ''Amount to Collect'',
      ''Is Large Order'',
      ''Package Weight (kg)'',
      ''Package Dimensions (LxWxH cm)'',
      ''Notes'']"

definition column_widths :: "nat list" where
  "column_widths = [20, 20, 15, 25, 15, 20, 15, 15, 15, 20, 15, 15, 15, 15, 15, 12, 15, 25, 30]"

text \<open>The dictionary \<open>choices_data\<close>, in insertion order, which is the order of iteration.\<close>

definition choices_data :: "(string \<times> string list) list" where
  "choices_data =
     [(''Client_Emails'',
         [''admin@flash.com'', ''testclient@flash.com'', ''client@flash.com'']),
      (''Payment_Methods'',
         [''COD'', ''Transfer'', ''Wallet'']),
      (''Cities'',
         [''Cairo'', ''Alexandria'', ''Giza'', ''Sharm El Sheikh'', ''Hurghada'', ''Luxor'',
          ''Aswan'', ''Port Said'', ''Suez'', ''Ismailia'']),
      (''Cairo_Zones'',
         [''Nasr City'', ''Heliopolis'', ''Maadi'', ''Zamalek'', ''Downtown'', ''Dokki'',
          ''Mohandessin'', ''New Cairo'', ''6th of October'', ''Shoubra'']),
      (''Alexandria_Zones'',
         [''Downtown'', ''Sidi Gaber'', ''Montaza'', ''Smouha'', ''Miami'', ''Gleem'',
          ''Sporting'', ''Stanley'', ''Camp Cesar'', ''Baccos'']),
      (''Giza_Zones'',
         [''Dokki'', ''Mohandessin'', ''Agouza'', ''Haram'', ''6th of October'',
          ''Sheikh Zayed'', ''Smart Village'', ''Faisal'', ''Imbaba'', ''Bulaq'']),
      (''Package_Descriptions'',
         [''Electronics - Smartphone'',
          ''Electronics - Laptop'',
          ''Electronics - Tablet'',
          ''Electronics - Headphones'',
          ''Electronics - Camera'',
          ''Clothing - T-Shirt'',
          ''Clothing - Jeans'',
          ''Clothing - Shoes'',
          ''Clothing - Dress'',
          ''Clothing - Jacket'',
          ''Books - Novel'',
          ''Books - Textbook'',
          ''Books - Magazine'',
          ''Home & Garden - Kitchen Appliances'',
          ''Home & Garden - Furniture'',
          ''Home & Garden - Decor'',
          ''Food & Beverages - Snacks'',
          ''Food & Beverages - Drinks'',
          ''Documents - Legal Papers'',
          ''Documents - Certificates'',
          ''Gifts - Birthday Gift'',
          ''Gifts - Wedding Gift'',
          ''Medical - Medication'',
          ''Beauty - Cosmetics'',
          ''Sports - Equipment'']),
      (''Package_Values'',
         [''50'', ''100'', ''150'', ''200'', ''250'', ''300'', ''400'',
          ''500'', ''750'', ''1000'', ''1500'', ''2000'', ''3000'', ''5000'']),
      (''Large_Order_Options'',
         [''TRUE'', ''FALSE'']),
      (''Street_Examples'',
         [''123 Main St'', ''456 Oak Ave'', ''789 Pine St'', ''321 Cedar Ln'', ''654 Elm Rd'',
          ''987 Maple Dr'', ''147 Birch Way'', ''258 Willow Ct'', ''369 Palm Blvd'',
          ''741 Rose Ave'']),
      (''Building_Details'',
         [''Apt 101'', ''Floor 3'', ''Building 5'', ''Suite 201'', ''Unit 12'', ''Villa 25'',
          ''Office 304'', ''Shop 15'', ''Penthouse'', ''Ground Floor''])]"

definition end_row :: nat where
  "end_row = 1000"

definition sample_data :: "string list list" where
  "sample_data =
     [[''testclient@flash.com'', ''John Doe'', ''+201234567890'', ''Electronics - Smartphone'',
       ''500'', ''123 Main St'', ''Apt 101'', ''Cairo'', ''Nasr City'',
       ''456 Oak Ave'', ''Building 5'', ''Alexandria'', ''Downtown'', ''COD'',
       ''520'', ''FALSE'', ''0.5'', ''15x10x5'', ''Sample shipment 1''],
      [''testclient@flash.com'', ''Jane Smith'', ''+201987654321'', ''Clothing - T-Shirt'',
       ''150'', ''123 Main St'', ''Apt 101'', ''Cairo'', ''Nasr City'',
       ''789 Pine St'', ''Floor 3'', ''Giza'', ''Dokki'', ''Transfer'',
       ''0'', ''FALSE'', ''0.3'', ''20x15x2'', ''Sample shipment 2'']]"

definition instructions :: "string list" where
  "instructions =
     [''FLASH EXPRESS BULK SHIPMENTS TEMPLATE'',
      [],
      ''INSTRUCTIONS:'',
      ''1. Use the 'Shipments' sheet to enter your bulk shipment data'',
      ''2. Most columns have dropdown menus - click the arrow to select from predefined options'',
      ''3. The 'Choices' sheet contains all the dropdown options - you can modify these as needed'',
      [],
      ''REQUIRED FIELDS:'',
      bullet @ '' Client Email - Must be a valid registered client email'',
      bullet @ '' Recipient Name - Full name of the person receiving the package'',
      bullet @ '' Recipient Phone - Phone number in format +201234567890'',
      bullet @ '' Package Description - Brief description of package contents'',
      bullet @ '' Package Value - Monetary value of the package in EGP'',
      bullet @ '' From/To Address Fields - Complete address information'',
      bullet @ '' Payment Method - COD, Transfer, or Wallet'',
      [],
      ''NOTES:'',
      bullet @ '' For COD shipments, 'Amount to Collect' = Package Value + Shipping Fee'',
      bullet @ '' For Transfer shipments, 'Amount to Collect' can be 0 if no additional amount needed'',
      bullet @ '' For Wallet shipments, 'Amount to Collect' should typically be 0'',
      bullet @ '' Is Large Order: TRUE for packages requiring special handling'',
      bullet @ '' Package Weight in kilograms (e.g., 0.5, 1.2, 2.0)'',
      bullet @ '' Package Dimensions in LxWxH format in centimeters (e.g., 15x10x5)'',
      [],
      ''AFTER COMPLETING:'',
      ''1. Save this file'',
      ''2. Upload it to the Flash Express bulk shipment import feature'',
      ''3. Review the preview before confirming the import'',
      [],
      ''For support, contact: admin@flash.com'']"

definition filename :: string where
  "filename = ''Flash_Express_Bulk_Shipments_Template.xlsx''"

subsection \<open>The loops of the script\<close>

text \<open>\<open>for col, header in enumerate(headers, 1)\<close>: the styled header row of Shipments.\<close>

fun add_headers :: "nat \<Rightarrow> string list \<Rightarrow> worksheet \<Rightarrow> exn + worksheet" where
  "add_headers col [] ws = Inr ws"
| "add_headers col (header # rest) ws =
     and_then (ws_cell 1 col header ws) (\<lambda>ws.
       add_headers (Suc col) rest
         (set_alignment 1 col \<lparr>horizontal = Some ''center'', vertical = Some ''center'', wrap_text = False\<rparr>
           (set_fill 1 col \<lparr>start_color = ''366092'', end_color = ''366092'', fill_type = ''solid''\<rparr>
             (set_font 1 col \<lparr>bold = True, font_size = None, font_color = Some ''FFFFFF''\<rparr> ws))))"

text \<open>\<open>for col, width in enumerate(column_widths, 1)\<close>.\<close>

fun set_column_widths :: "nat \<Rightarrow> nat list \<Rightarrow> worksheet \<Rightarrow> exn + worksheet" where
  "set_column_widths col [] ws = Inr ws"
| "set_column_widths col (width # rest) ws =
     and_then (get_column_letter col) (\<lambda>letter.
       set_column_widths (Suc col) rest (set_width letter width ws))"

text \<open>\<open>for row, choice in enumerate(choices, 2)\<close>, in column \<open>col\<close> of Choices.\<close>

fun add_choice_values :: "nat \<Rightarrow> nat \<Rightarrow> string list \<Rightarrow> worksheet \<Rightarrow> exn + worksheet" where
  "add_choice_values row col [] ws = Inr ws"
| "add_choice_values row col (choice # rest) ws =
     and_then (ws_cell row col choice ws) (\<lambda>ws. add_choice_values (Suc row) col rest ws)"

text \<open>
  \<open>for category, choices in choices_data.items()\<close>, with the counter \<open>col\<close> that the
  loop body increments: the styled category header, the values below it, the width.
\<close>

fun add_choices :: "nat \<Rightarrow> (string \<times> string list) list \<Rightarrow> worksheet \<Rightarrow> exn + worksheet" where
  "add_choices col [] ws = Inr ws"
| "add_choices col ((category, choices) # rest) ws =
     and_then (ws_cell 1 col (str_replace (CHR ''_'') (CHR '' '') category) ws) (\<lambda>ws.
     and_then (add_choice_values 2 col choices
         (set_alignment 1 col \<lparr>horizontal = Some ''center'', vertical = None, wrap_text = False\<rparr>
           (set_fill 1 col \<lparr>start_color = ''70AD47'', end_color = ''70AD47'', fill_type = ''solid''\<rparr>
             (set_font 1 col \<lparr>bold = True, font_size = None, font_color = Some ''FFFFFF''\<rparr> ws)))) (\<lambda>ws.
     and_then (get_column_letter col) (\<lambda>letter.
       add_choices (Suc col) rest (set_width letter 25 ws))))"

text \<open>The local function \<open>create_dropdown\<close>.\<close>

definition create_dropdown ::
    "string \<Rightarrow> nat \<Rightarrow> nat \<Rightarrow> string \<Rightarrow> worksheet \<Rightarrow> exn + worksheet" where
  "create_dropdown column_letter start_row end_row' choices_range sheet =
     (let dv = DataValidation ''list'' (''Choices.'' @ choices_range) True;
          dv = dv\<lparr>dv_error := Some ''Please select a value from the dropdown list''\<rparr>;
          dv = dv\<lparr>errorTitle := Some ''Invalid Entry''\<rparr>;
          (i, sheet) = add_data_validation dv sheet
      in dv_add i (column_letter @ str_nat start_row @ '':'' @ column_letter @ str_nat end_row') sheet)"

text \<open>\<open>for col_idx, value in enumerate(row_data, 1)\<close>, in row \<open>row_idx\<close> of Shipments.\<close>

fun add_sample_row :: "nat \<Rightarrow> nat \<Rightarrow> string list \<Rightarrow> worksheet \<Rightarrow> exn + worksheet" where
  "add_sample_row row_idx col_idx [] ws = Inr ws"
| "add_sample_row row_idx col_idx (v # rest) ws =
     and_then (ws_cell row_idx col_idx v ws) (\<lambda>ws. add_sample_row row_idx (Suc col_idx) rest ws)"

text \<open>\<open>for row_idx, row_data in enumerate(sample_data, 2)\<close>.\<close>

fun add_sample_data :: "nat \<Rightarrow> string list list \<Rightarrow> worksheet \<Rightarrow> exn + worksheet" where
  "add_sample_data row_idx [] ws = Inr ws"
| "add_sample_data row_idx (row_data # rest) ws =
     and_then (add_sample_row row_idx 1 row_data ws) (\<lambda>ws. add_sample_data (Suc row_idx) rest ws)"

text \<open>\<open>for row, instruction in enumerate(instructions, 1)\<close>.\<close>

fun add_instructions :: "nat \<Rightarrow> string list \<Rightarrow> worksheet \<Rightarrow> exn + worksheet" where
  "add_instructions row [] ws = Inr ws"
| "add_instructions row (instruction # rest) ws =
     and_then (ws_cell row 1 instruction ws) (\<lambda>ws.
       add_instructions (Suc row) rest
         (set_alignment row 1 \<lparr>horizontal = None, vertical = None, wrap_text = True\<rparr>
           (if row = 1
              then set_font row 1 \<lparr>bold = True, font_size = Some 16, font_color = Some ''366092''\<rparr> ws
            else if endswith instruction '':'' \<and> \<not> startswith instruction bullet
              then set_font row 1 \<lparr>bold = True, font_size = None, font_color = Some ''70AD47''\<rparr> ws
            else ws)))"

subsection \<open>The workbook that the script assembles\<close>

text \<open>
  The body of \<open>create_bulk_shipments_template\<close> up to the call of \<open>wb.save\<close>, statement
  by statement, in a run that starts at time \<open>now\<close>.
\<close>

definition build_workbook :: "nat \<Rightarrow> exn + workbook" where
  "build_workbook now =
     (let wb = Workbook now in
      and_then (wb_remove (active_sheet_index wb) wb) (\<lambda>wb.
      let (shipments_sheet, wb) = create_sheet ''Shipments'' wb;
          (choices_sheet, wb) = create_sheet ''Choices'' wb
      in
      and_then (on_sheet shipments_sheet (add_headers 1 headers) wb) (\<lambda>wb.
      and_then (on_sheet shipments_sheet (set_column_widths 1 column_widths) wb) (\<lambda>wb.
      and_then (on_sheet choices_sheet (add_choices 1 choices_data) wb) (\<lambda>wb.
      and_then (on_sheet shipments_sheet (create_dropdown ''A'' 2 end_row ''$A$2:$A$4'') wb) (\<lambda>wb.
      and_then (on_sheet shipments_sheet (create_dropdown ''N'' 2 end_row ''$B$2:$B$4'') wb) (\<lambda>wb.
      and_then (on_sheet shipments_sheet (create_dropdown ''H'' 2 end_row ''$C$2:$C$11'') wb) (\<lambda>wb.
      and_then (on_sheet shipments_sheet (create_dropdown ''L'' 2 end_row ''$C$2:$C$11'') wb) (\<lambda>wb.
      and_then (on_sheet shipments_sheet (create_dropdown ''D'' 2 end_row ''$G$2:$G$26'') wb) (\<lambda>wb.
      and_then (on_sheet shipments_sheet (create_dropdown ''E'' 2 end_row ''$H$2:$H$15'') wb) (\<lambda>wb.
      and_then (on_sheet shipments_sheet (create_dropdown ''P'' 2 end_row ''$I$2:$I$3'') wb) (\<lambda>wb.
      and_then (on_sheet shipments_sheet (add_sample_data 2 sample_data) wb) (\<lambda>wb.
      let (instructions_sheet, wb) = create_sheet ''Instructions'' wb
      in
      and_then (on_sheet instructions_sheet (\<lambda>ws. Inr (set_width ''A'' 80 ws)) wb) (\<lambda>wb.
      and_then (on_sheet instructions_sheet (add_instructions 1 instructions) wb) (\<lambda>wb.
      set_active shipments_sheet wb)))))))))))))))"

subsection \<open>Running the script\<close>

text \<open>
  What a run depends on and what it changes. The environment says whether the two
  imported packages are installed, whether writing the output file fails (with the
  message of the operating system's error), what the clock reads, and which lines the
  standard output can encode (with the message of the error raised for a line it
  cannot). The state of the process is the files on disk, as the workbooks saved under
  their names, and the lines printed so far.
\<close>

record environment =
  pandas_installed :: bool
  openpyxl_installed :: bool
  save_failure :: "string option"
  clock :: nat
  stdout_accepts :: "string \<Rightarrow> bool"
  encode_error :: "string \<Rightarrow> string"

record process_state =
  files :: "string \<rightharpoonup> workbook"
  stdout :: "string list"

text \<open>
  A statement runs from a state of the process and either ends normally or raises; the
  changes it made before raising stay. \<open>seq\<close> runs one statement after another.
\<close>

type_synonym statement = "process_state \<Rightarrow> exn option \<times> process_state"

definition seq :: "statement \<Rightarrow> statement \<Rightarrow> statement" where
  "seq a b st = (case a st of (Some e, st') \<Rightarrow> (Some e, st') | (None, st') \<Rightarrow> b st')"

text \<open>\<open>print(line)\<close> raises \<open>UnicodeEncodeError\<close> when the output cannot encode the line.\<close>

definition py_print :: "environment \<Rightarrow> string \<Rightarrow> statement" where
  "py_print env line st =
     (if stdout_accepts env line then (None, st\<lparr>stdout := stdout st @ [line]\<rparr>)
      else (Some (UnicodeEncodeError (encode_error env line)), st))"

definition wb_save :: "environment \<Rightarrow> string \<Rightarrow> workbook \<Rightarrow> statement" where
  "wb_save env name wb st =
     (case save_failure env of
        Some msg \<Rightarrow> (Some (OSError msg), st)
      | None \<Rightarrow> (None, st\<lparr>files := (files st)(name \<mapsto> wb)\<rparr>))"

definition create_bulk_shipments_template :: "environment \<Rightarrow> statement" where
  "create_bulk_shipments_template env st =
     (case build_workbook (clock env) of
        Inl e \<Rightarrow> (Some e, st)
      | Inr wb \<Rightarrow>
          seq (wb_save env filename wb)
         (seq (py_print env (check_mark @ '' Template created successfully: '' @ filename))
         (seq (py_print env (clipboard @ '' The template includes:''))
         (seq (py_print env (''   '' @ bullet @ '' Shipments sheet with dropdown menus''))
         (seq (py_print env (''   '' @ bullet @ '' Choices sheet with all dropdown options''))
         (seq (py_print env (''   '' @ bullet @ '' Instructions sheet with detailed guidance''))
              (py_print env (''   '' @ bullet @ '' Sample data rows for reference''))))))) st)"

text \<open>
  The block under \<open>if __name__ == "__main__"\<close>: the call inside \<open>try\<close>, and its two
  handlers. An exception raised inside a handler leaves the block.
\<close>

definition main_block :: "environment \<Rightarrow> statement" where
  "main_block env st =
     (case create_bulk_shipments_template env st of
        (None, st') \<Rightarrow> (None, st')
      | (Some e, st') \<Rightarrow>
          if is_ImportError e
          then seq (py_print env (cross_mark @ '' Missing required libraries. Please install them with:''))
              (seq (py_print env ''pip install pandas openpyxl'')
                   (py_print env (''Error: '' @ exn_message e))) st'
          else py_print env (cross_mark @ '' Error creating template: '' @ exn_message e) st')"

text \<open>
  How the interpreter leaves the module: it ran to its end, or an exception reached
  the top level (a traceback and a non-zero exit status).
\<close>

datatype outcome = Completed | Uncaught exn

text \<open>
  The module from its first statement: the import statements of lines 6 to 11, the
  function definition, the main block.
\<close>

definition run_script :: "environment \<Rightarrow> process_state \<Rightarrow> outcome \<times> process_state" where
  "run_script env st =
     (if \<not> pandas_installed env
        then (Uncaught (ImportError (''No module named 'pandas'' @ [CHR 0x27])), st)
      else if \<not> openpyxl_installed env
        then (Uncaught (ImportError (''No module named 'openpyxl'' @ [CHR 0x27])), st)
      else (case main_block env st of
              (None, st') \<Rightarrow> (Completed, st')
            | (Some e, st') \<Rightarrow> (Uncaught e, st')))"

section \<open>Reading the generated workbook\<close>

text \<open>
  A validation's \<open>formula1\<close> has the form \<open>Sheet.Range\<close>: the title of the sheet that
  holds the allowed values, a dot, and their range there.
\<close>

definition source_reference :: "string \<Rightarrow> (string \<times> cell_range) option" where
  "source_reference f =
     (case dropWhile (\<lambda>c. c \<noteq> CHR ''.'') f of
        [] \<Rightarrow> None
      | dot # range_string \<Rightarrow>
          (case range_boundaries range_string of
             Inl e \<Rightarrow> None
           | Inr b \<Rightarrow> Some (takeWhile (\<lambda>c. c \<noteq> CHR ''.'') f, b)))"

text \<open>The cell at row \<open>r\<close>, column \<open>c\<close> lies in a range.\<close>

definition in_range :: "cell_range \<Rightarrow> nat \<Rightarrow> nat \<Rightarrow> bool" where
  "in_range b r c = (case b of (c1, r1, c2, r2) \<Rightarrow> c1 \<le> c \<and> c \<le> c2 \<and> r1 \<le> r \<and> r \<le> r2)"

text \<open>Some data validation of the sheet applies to the cell at row \<open>r\<close>, column \<open>c\<close>.\<close>

definition constrained :: "worksheet \<Rightarrow> nat \<Rightarrow> nat \<Rightarrow> bool" where
  "constrained ws r c =
     list_ex (\<lambda>dv. list_ex (\<lambda>b. in_range b r c) (sqref dv)) (data_validations ws)"

text \<open>
  The values that a table of cell contents holds in a range, column by column, empty
  cells left out; and the values stored in a range of a sheet.
\<close>

definition values_in :: "(nat \<Rightarrow> nat \<Rightarrow> string option) \<Rightarrow> cell_range \<Rightarrow> string list" where
  "values_in contents b =
     (case b of (c1, r1, c2, r2) \<Rightarrow>
        concat (map (\<lambda>c. concat (map (\<lambda>r. case contents r c of None \<Rightarrow> [] | Some v \<Rightarrow> [v])
                                    [r1..<Suc r2]))
                    [c1..<Suc c2]))"

definition range_values :: "worksheet \<Rightarrow> cell_range \<Rightarrow> string list" where
  "range_values ws b = values_in (cell_value ws) b"

text \<open>The values a validation allows: those in the range its formula refers to.\<close>

definition allowed_values :: "workbook \<Rightarrow> data_validation \<Rightarrow> string list" where
  "allowed_values wb dv =
     (case source_reference (formula1 dv) of
        None \<Rightarrow> []
      | Some (name, b) \<Rightarrow>
          (case find (\<lambda>ws. title ws = name) (sheets wb) of
             None \<Rightarrow> []
           | Some ws \<Rightarrow> range_values ws b))"

text \<open>
  What an application shows when a value outside the list is entered into a cell the
  validation applies to: the error alert with the validation's title and text when the
  validation has \<open>showErrorMessage\<close> set, and nothing otherwise.
\<close>

definition error_alert :: "data_validation \<Rightarrow> (string option \<times> string option) option" where
  "error_alert dv = (if showErrorMessage dv then Some (errorTitle dv, dv_error dv) else None)"

text \<open>
  The validation object that a call of \<open>create_dropdown\<close> for rows 2 to 1000 of column
  \<open>c\<close> leaves on the sheet, given the text of its source range (lemma
  \<open>create_dropdown_letters\<close> below).
\<close>

definition list_validation :: "nat \<Rightarrow> string \<Rightarrow> data_validation" where
  "list_validation c choices_range =
     \<lparr>dv_type = ''list'', formula1 = ''Choices.'' @ choices_range, showErrorMessage = False,
      showDropDown = True,
      dv_error = Some ''Please select a value from the dropdown list'',
      errorTitle = Some ''Invalid Entry'', sqref = [(c, 2, c, 1000)]\<rparr>"

subsection \<open>What the specification says of the sheets\<close>

text \<open>
  The following definitions follow the wording of the specification. The theorems
  below compare them with the workbook that \<open>build_workbook\<close> computes.
\<close>

text \<open>
  The range that the \<open>i\<close>-th choice category (counted from 1) is specified to occupy
  below its header: column \<open>i\<close>, from row 2 to row 1 + the number of its items.
\<close>

definition category_range :: "nat \<Rightarrow> cell_range" where
  "category_range i = (i, 2, i, 1 + length (snd (choices_data ! (i - 1))))"

text \<open>The contents specified for the Shipments sheet: the header row and the two sample rows.\<close>

definition shipments_contents :: "nat \<Rightarrow> nat \<Rightarrow> string option" where
  "shipments_contents r c =
     (if 1 \<le> c \<and> c \<le> 19 \<and> r = 1 then Some (headers ! (c - 1))
      else if 1 \<le> c \<and> c \<le> 19 \<and> 2 \<le> r \<and> r \<le> 3 then Some (sample_data ! (r - 2) ! (c - 1))
      else None)"

text \<open>
  The contents specified for the Choices sheet: one column per category, in the order
  of the categories, the display name in row 1 and the items below it without gaps.
\<close>

definition choices_contents :: "nat \<Rightarrow> nat \<Rightarrow> string option" where
  "choices_contents r c =
     (if 1 \<le> c \<and> c \<le> length choices_data
      then (if r = 1 then Some (str_replace (CHR ''_'') (CHR '' '') (fst (choices_data ! (c - 1))))
            else if 2 \<le> r \<and> r \<le> 1 + length (snd (choices_data ! (c - 1)))
              then Some (snd (choices_data ! (c - 1)) ! (r - 2))
            else None)
      else None)"

section \<open>Properties of the library operations and of the loops\<close>

lemma and_then_Inr [simp]: "and_then (Inr x) f = f x"
  by (simp add: and_then_def)

lemma and_then_Inl [simp]: "and_then (Inl e) f = Inl e"
  by (simp add: and_then_def)

lemma ws_cell_Inr:
  "1 \<le> r \<Longrightarrow> 1 \<le> c \<Longrightarrow>
   ws_cell r c v ws =
     Inr (ws\<lparr>cells := (cells ws)((r, c) \<mapsto>
            (case cells ws (r, c) of None \<Rightarrow> new_cell | Some x \<Rightarrow> x)\<lparr>cvalue := v\<rparr>)\<rparr>)"
  by (simp add: ws_cell_def)

lemma ws_cell_ok:
  assumes "1 \<le> r" "1 \<le> c"
  shows "\<exists>ws'. ws_cell r c v ws = Inr ws' \<and> title ws' = title ws
           \<and> data_validations ws' = data_validations ws
           \<and> (\<forall>r' c'. cell_value ws' r' c' = (if r' = r \<and> c' = c then Some v else cell_value ws r' c'))"
  using assms by (simp add: ws_cell_Inr cell_value_def)

lemma styled_title [simp]:
  "title (set_font r c f ws) = title ws"
  "title (set_fill r c p ws) = title ws"
  "title (set_alignment r c a ws) = title ws"
  "title (set_width l w ws) = title ws"
  by (simp_all add: set_font_def set_fill_def set_alignment_def set_width_def)

lemma styled_validations [simp]:
  "data_validations (set_font r c f ws) = data_validations ws"
  "data_validations (set_fill r c p ws) = data_validations ws"
  "data_validations (set_alignment r c a ws) = data_validations ws"
  "data_validations (set_width l w ws) = data_validations ws"
  by (simp_all add: set_font_def set_fill_def set_alignment_def set_width_def)

lemma styled_value [simp]:
  "cell_value (set_font r c f ws) r' c' = cell_value ws r' c'"
  "cell_value (set_fill r c p ws) r' c' = cell_value ws r' c'"
  "cell_value (set_alignment r c a ws) r' c' = cell_value ws r' c'"
  "cell_value (set_width l w ws) r' c' = cell_value ws r' c'"
  by (simp_all add: set_font_def set_fill_def set_alignment_def set_width_def cell_value_def
      option.map_comp comp_def)

lemma add_headers_ok:
  "1 \<le> col \<Longrightarrow>
   \<exists>ws'. add_headers col hs ws = Inr ws' \<and> title ws' = title ws
     \<and> data_validations ws' = data_validations ws
     \<and> (\<forall>r c. cell_value ws' r c =
           (if r = 1 \<and> col \<le> c \<and> c < col + length hs then Some (hs ! (c - col))
            else cell_value ws r c))"
proof (induction hs arbitrary: col ws)
  case Nil
  then show ?case by auto
next
  case (Cons h hs)
  obtain w1 where w1: "ws_cell 1 col h ws = Inr w1" "title w1 = title ws"
      "data_validations w1 = data_validations ws"
      "\<And>r' c'. cell_value w1 r' c' = (if r' = 1 \<and> c' = col then Some h else cell_value ws r' c')"
    using ws_cell_ok [of 1 col h ws] Cons.prems by auto
  let ?w2 = "set_alignment 1 col \<lparr>horizontal = Some ''center'', vertical = Some ''center'', wrap_text = False\<rparr>
           (set_fill 1 col \<lparr>start_color = ''366092'', end_color = ''366092'', fill_type = ''solid''\<rparr>
             (set_font 1 col \<lparr>bold = True, font_size = None, font_color = Some ''FFFFFF''\<rparr> w1))"
  obtain w3 where w3: "add_headers (Suc col) hs ?w2 = Inr w3" "title w3 = title ?w2"
      "data_validations w3 = data_validations ?w2"
      "\<And>r c. cell_value w3 r c =
           (if r = 1 \<and> Suc col \<le> c \<and> c < Suc col + length hs then Some (hs ! (c - Suc col))
            else cell_value ?w2 r c)"
    using Cons.IH [of "Suc col" ?w2] by auto
  have "add_headers col (h # hs) ws = Inr w3"
    using w1(1) w3(1) by simp
  moreover have "cell_value w3 r c =
           (if r = 1 \<and> col \<le> c \<and> c < col + length (h # hs) then Some ((h # hs) ! (c - col))
            else cell_value ws r c)" for r c
    by (auto simp add: w3(4) w1(4) nth_Cons' Suc_diff_le)
  ultimately show ?case
    using w1 w3 by simp
qed


lemma set_column_widths_ok:
  "1 \<le> col \<Longrightarrow> col + length xs \<le> 18279 \<Longrightarrow>
   \<exists>ws'. set_column_widths col xs ws = Inr ws' \<and> title ws' = title ws
     \<and> data_validations ws' = data_validations ws
     \<and> (\<forall>r c. cell_value ws' r c = cell_value ws r c)"
proof (induction xs arbitrary: col ws)
  case Nil
  then show ?case by simp
next
  case (Cons x xs)
  have letter: "get_column_letter col = Inr (column_letters col)"
    using Cons.prems by (simp add: get_column_letter_def)
  show ?case
    using Cons.IH [of "Suc col" "set_width (column_letters col) x ws"] Cons.prems letter
    by auto
qed

lemma add_choice_values_ok:
  "1 \<le> row \<Longrightarrow> 1 \<le> col \<Longrightarrow>
   \<exists>ws'. add_choice_values row col xs ws = Inr ws' \<and> title ws' = title ws
     \<and> data_validations ws' = data_validations ws
     \<and> (\<forall>r c. cell_value ws' r c =
           (if c = col \<and> row \<le> r \<and> r < row + length xs then Some (xs ! (r - row))
            else cell_value ws r c))"
proof (induction xs arbitrary: row ws)
  case Nil
  then show ?case by auto
next
  case (Cons x xs)
  obtain w1 where w1: "ws_cell row col x ws = Inr w1" "title w1 = title ws"
      "data_validations w1 = data_validations ws"
      "\<And>r' c'. cell_value w1 r' c' = (if r' = row \<and> c' = col then Some x else cell_value ws r' c')"
    using ws_cell_ok [of row col x ws] Cons.prems by auto
  obtain w2 where w2: "add_choice_values (Suc row) col xs w1 = Inr w2" "title w2 = title w1"
      "data_validations w2 = data_validations w1"
      "\<And>r c. cell_value w2 r c =
           (if c = col \<and> Suc row \<le> r \<and> r < Suc row + length xs then Some (xs ! (r - Suc row))
            else cell_value w1 r c)"
    using Cons.IH [of "Suc row" w1] Cons.prems by auto
  have "add_choice_values row col (x # xs) ws = Inr w2"
    using w1(1) w2(1) by simp
  moreover have "cell_value w2 r c =
           (if c = col \<and> row \<le> r \<and> r < row + length (x # xs) then Some ((x # xs) ! (r - row))
            else cell_value ws r c)" for r c
    by (auto simp add: w2(4) w1(4) nth_Cons' Suc_diff_le)
  ultimately show ?case
    using w1 w2 by simp
qed

lemma add_sample_row_ok:
  "1 \<le> row \<Longrightarrow> 1 \<le> col \<Longrightarrow>
   \<exists>ws'. add_sample_row row col xs ws = Inr ws' \<and> title ws' = title ws
     \<and> data_validations ws' = data_validations ws
     \<and> (\<forall>r c. cell_value ws' r c =
           (if r = row \<and> col \<le> c \<and> c < col + length xs then Some (xs ! (c - col))
            else cell_value ws r c))"
proof (induction xs arbitrary: col ws)
  case Nil
  then show ?case by auto
next
  case (Cons x xs)
  obtain w1 where w1: "ws_cell row col x ws = Inr w1" "title w1 = title ws"
      "data_validations w1 = data_validations ws"
      "\<And>r' c'. cell_value w1 r' c' = (if r' = row \<and> c' = col then Some x else cell_value ws r' c')"
    using ws_cell_ok [of row col x ws] Cons.prems by auto
  obtain w2 where w2: "add_sample_row row (Suc col) xs w1 = Inr w2" "title w2 = title w1"
      "data_validations w2 = data_validations w1"
      "\<And>r c. cell_value w2 r c =
           (if r = row \<and> Suc col \<le> c \<and> c < Suc col + length xs then Some (xs ! (c - Suc col))
            else cell_value w1 r c)"
    using Cons.IH [of "Suc col" w1] Cons.prems by auto
  have "add_sample_row row col (x # xs) ws = Inr w2"
    using w1(1) w2(1) by simp
  moreover have "cell_value w2 r c =
           (if r = row \<and> col \<le> c \<and> c < col + length (x # xs) then Some ((x # xs) ! (c - col))
            else cell_value ws r c)" for r c
    by (auto simp add: w2(4) w1(4) nth_Cons' Suc_diff_le)
  ultimately show ?case
    using w1 w2 by simp
qed

lemma add_sample_data_ok:
  "1 \<le> row \<Longrightarrow>
   \<exists>ws'. add_sample_data row xss ws = Inr ws' \<and> title ws' = title ws
     \<and> data_validations ws' = data_validations ws
     \<and> (\<forall>r c. cell_value ws' r c =
           (if row \<le> r \<and> r < row + length xss \<and> 1 \<le> c \<and> c < 1 + length (xss ! (r - row))
            then Some (xss ! (r - row) ! (c - 1))
            else cell_value ws r c))"
proof (induction xss arbitrary: row ws)
  case Nil
  then show ?case by auto
next
  case (Cons xs xss)
  obtain w1 where w1: "add_sample_row row 1 xs ws = Inr w1" "title w1 = title ws"
      "data_validations w1 = data_validations ws"
      "\<And>r c. cell_value w1 r c =
           (if r = row \<and> 1 \<le> c \<and> c < 1 + length xs then Some (xs ! (c - 1))
            else cell_value ws r c)"
    using add_sample_row_ok [of row 1 xs ws] Cons.prems by auto
  obtain w2 where w2: "add_sample_data (Suc row) xss w1 = Inr w2" "title w2 = title w1"
      "data_validations w2 = data_validations w1"
      "\<And>r c. cell_value w2 r c =
           (if Suc row \<le> r \<and> r < Suc row + length xss \<and> 1 \<le> c \<and> c < 1 + length (xss ! (r - Suc row))
            then Some (xss ! (r - Suc row) ! (c - 1))
            else cell_value w1 r c)"
    using Cons.IH [of "Suc row" w1] by auto
  have "add_sample_data row (xs # xss) ws = Inr w2"
    using w1(1) w2(1) by simp
  moreover have "cell_value w2 r c =
           (if row \<le> r \<and> r < row + length (xs # xss) \<and> 1 \<le> c \<and> c < 1 + length ((xs # xss) ! (r - row))
            then Some ((xs # xss) ! (r - row) ! (c - 1))
            else cell_value ws r c)" for r c
    by (auto simp add: w2(4) w1(4) nth_Cons' Suc_diff_le)
  ultimately show ?case
    using w1 w2 by simp
qed

lemma add_instructions_ok:
  "1 \<le> row \<Longrightarrow>
   \<exists>ws'. add_instructions row xs ws = Inr ws' \<and> title ws' = title ws
     \<and> data_validations ws' = data_validations ws
     \<and> (\<forall>r c. cell_value ws' r c =
           (if c = 1 \<and> row \<le> r \<and> r < row + length xs then Some (xs ! (r - row))
            else cell_value ws r c))"
proof (induction xs arbitrary: row ws)
  case Nil
  then show ?case by auto
next
  case (Cons x xs)
  obtain w1 where w1: "ws_cell row 1 x ws = Inr w1" "title w1 = title ws"
      "data_validations w1 = data_validations ws"
      "\<And>r' c'. cell_value w1 r' c' = (if r' = row \<and> c' = 1 then Some x else cell_value ws r' c')"
    using ws_cell_ok [of row 1 x ws] Cons.prems by auto
  define w2 where "w2 = set_alignment row 1 \<lparr>horizontal = None, vertical = None, wrap_text = True\<rparr>
           (if row = 1
              then set_font row 1 \<lparr>bold = True, font_size = Some 16, font_color = Some ''366092''\<rparr> w1
            else if endswith x '':'' \<and> \<not> startswith x bullet
              then set_font row 1 \<lparr>bold = True, font_size = None, font_color = Some ''70AD47''\<rparr> w1
            else w1)"
  have w2: "title w2 = title w1" "data_validations w2 = data_validations w1"
      "\<And>r c. cell_value w2 r c = cell_value w1 r c"
    by (simp_all add: w2_def)
  obtain w3 where w3: "add_instructions (Suc row) xs w2 = Inr w3" "title w3 = title w2"
      "data_validations w3 = data_validations w2"
      "\<And>r c. cell_value w3 r c =
           (if c = 1 \<and> Suc row \<le> r \<and> r < Suc row + length xs then Some (xs ! (r - Suc row))
            else cell_value w2 r c)"
    using Cons.IH [of "Suc row" w2] by auto
  have "add_instructions row (x # xs) ws = Inr w3"
    using w1(1) w3(1) unfolding w2_def by simp
  moreover have "cell_value w3 r c =
           (if c = 1 \<and> row \<le> r \<and> r < row + length (x # xs) then Some ((x # xs) ! (r - row))
            else cell_value ws r c)" for r c
    by (auto simp add: w3(4) w2(3) w1(4) nth_Cons' Suc_diff_le)
  ultimately show ?case
    using w1 w2 w3 by simp
qed


lemma add_choices_ok:
  "1 \<le> col \<Longrightarrow> col + length cd \<le> 18279 \<Longrightarrow>
   \<exists>ws'. add_choices col cd ws = Inr ws' \<and> title ws' = title ws
     \<and> data_validations ws' = data_validations ws
     \<and> (\<forall>r c. cell_value ws' r c =
           (if col \<le> c \<and> c < col + length cd
            then (if r = 1 then Some (str_replace (CHR ''_'') (CHR '' '') (fst (cd ! (c - col))))
                  else if 2 \<le> r \<and> r < 2 + length (snd (cd ! (c - col)))
                    then Some (snd (cd ! (c - col)) ! (r - 2))
                  else cell_value ws r c)
            else cell_value ws r c))"
proof (induction cd arbitrary: col ws)
  case Nil
  then show ?case by auto
next
  case (Cons kv cd)
  obtain category choices where kv: "kv = (category, choices)"
    by (cases kv)
  obtain w1 where w1: "ws_cell 1 col (str_replace (CHR ''_'') (CHR '' '') category) ws = Inr w1"
      "title w1 = title ws" "data_validations w1 = data_validations ws"
      "\<And>r' c'. cell_value w1 r' c' =
         (if r' = 1 \<and> c' = col then Some (str_replace (CHR ''_'') (CHR '' '') category)
          else cell_value ws r' c')"
    using ws_cell_ok [of 1 col "str_replace (CHR ''_'') (CHR '' '') category" ws] Cons.prems by auto
  define w2 where "w2 =
      set_alignment 1 col \<lparr>horizontal = Some ''center'', vertical = None, wrap_text = False\<rparr>
        (set_fill 1 col \<lparr>start_color = ''70AD47'', end_color = ''70AD47'', fill_type = ''solid''\<rparr>
          (set_font 1 col \<lparr>bold = True, font_size = None, font_color = Some ''FFFFFF''\<rparr> w1))"
  have w2: "title w2 = title w1" "data_validations w2 = data_validations w1"
      "\<And>r c. cell_value w2 r c = cell_value w1 r c"
    by (simp_all add: w2_def)
  obtain w3 where w3: "add_choice_values 2 col choices w2 = Inr w3" "title w3 = title w2"
      "data_validations w3 = data_validations w2"
      "\<And>r c. cell_value w3 r c =
           (if c = col \<and> 2 \<le> r \<and> r < 2 + length choices then Some (choices ! (r - 2))
            else cell_value w2 r c)"
    using add_choice_values_ok [of 2 col choices w2] Cons.prems by auto
  have letter: "get_column_letter col = Inr (column_letters col)"
    using Cons.prems by (simp add: get_column_letter_def)
  define w4 where "w4 = set_width (column_letters col) 25 w3"
  have w4: "title w4 = title w3" "data_validations w4 = data_validations w3"
      "\<And>r c. cell_value w4 r c = cell_value w3 r c"
    by (simp_all add: w4_def)
  obtain w5 where w5: "add_choices (Suc col) cd w4 = Inr w5" "title w5 = title w4"
      "data_validations w5 = data_validations w4"
      "\<And>r c. cell_value w5 r c =
           (if Suc col \<le> c \<and> c < Suc col + length cd
            then (if r = 1 then Some (str_replace (CHR ''_'') (CHR '' '') (fst (cd ! (c - Suc col))))
                  else if 2 \<le> r \<and> r < 2 + length (snd (cd ! (c - Suc col)))
                    then Some (snd (cd ! (c - Suc col)) ! (r - 2))
                  else cell_value w4 r c)
            else cell_value w4 r c)"
    using Cons.IH [of "Suc col" w4] Cons.prems by auto
  have "add_choices col (kv # cd) ws = Inr w5"
    using w1(1) w3(1) w5(1) letter unfolding kv w2_def w4_def by simp
  moreover have "cell_value w5 r c =
           (if col \<le> c \<and> c < col + length (kv # cd)
            then (if r = 1 then Some (str_replace (CHR ''_'') (CHR '' '') (fst ((kv # cd) ! (c - col))))
                  else if 2 \<le> r \<and> r < 2 + length (snd ((kv # cd) ! (c - col)))
                    then Some (snd ((kv # cd) ! (c - col)) ! (r - 2))
                  else cell_value ws r c)
            else cell_value ws r c)" for r c
    by (auto simp add: w5(4) w4(3) w3(4) w2(3) w1(4) kv nth_Cons' Suc_diff_le)
  ultimately show ?case
    using w1 w2 w3 w4 w5 by simp
qed

lemma create_dropdown_Inr:
  assumes "range_boundaries (l @ str_nat s @ '':'' @ l @ str_nat e) = Inr b"
  shows "create_dropdown l s e rng ws =
     Inr (ws\<lparr>data_validations := data_validations ws @
        [\<lparr>dv_type = ''list'', formula1 = ''Choices.'' @ rng, showErrorMessage = False,
          showDropDown = True,
          dv_error = Some ''Please select a value from the dropdown list'',
          errorTitle = Some ''Invalid Entry'', sqref = [b]\<rparr>]\<rparr>)"
  using assms
  by (simp add: create_dropdown_def DataValidation_def add_data_validation_def dv_add_def Let_def)

lemma dropdown_ranges:
  "range_boundaries (''A'' @ str_nat 2 @ '':'' @ ''A'' @ str_nat end_row) = Inr (1, 2, 1, 1000)"
  "range_boundaries (''N'' @ str_nat 2 @ '':'' @ ''N'' @ str_nat end_row) = Inr (14, 2, 14, 1000)"
  "range_boundaries (''H'' @ str_nat 2 @ '':'' @ ''H'' @ str_nat end_row) = Inr (8, 2, 8, 1000)"
  "range_boundaries (''L'' @ str_nat 2 @ '':'' @ ''L'' @ str_nat end_row) = Inr (12, 2, 12, 1000)"
  "range_boundaries (''D'' @ str_nat 2 @ '':'' @ ''D'' @ str_nat end_row) = Inr (4, 2, 4, 1000)"
  "range_boundaries (''E'' @ str_nat 2 @ '':'' @ ''E'' @ str_nat end_row) = Inr (5, 2, 5, 1000)"
  "range_boundaries (''P'' @ str_nat 2 @ '':'' @ ''P'' @ str_nat end_row) = Inr (16, 2, 16, 1000)"
  by code_simp+

lemma create_dropdown_letters:
  "create_dropdown ''A'' 2 end_row rng ws =
     Inr (ws\<lparr>data_validations := data_validations ws @ [list_validation 1 rng]\<rparr>)"
  "create_dropdown ''N'' 2 end_row rng ws =
     Inr (ws\<lparr>data_validations := data_validations ws @ [list_validation 14 rng]\<rparr>)"
  "create_dropdown ''H'' 2 end_row rng ws =
     Inr (ws\<lparr>data_validations := data_validations ws @ [list_validation 8 rng]\<rparr>)"
  "create_dropdown ''L'' 2 end_row rng ws =
     Inr (ws\<lparr>data_validations := data_validations ws @ [list_validation 12 rng]\<rparr>)"
  "create_dropdown ''D'' 2 end_row rng ws =
     Inr (ws\<lparr>data_validations := data_validations ws @ [list_validation 4 rng]\<rparr>)"
  "create_dropdown ''E'' 2 end_row rng ws =
     Inr (ws\<lparr>data_validations := data_validations ws @ [list_validation 5 rng]\<rparr>)"
  "create_dropdown ''P'' 2 end_row rng ws =
     Inr (ws\<lparr>data_validations := data_validations ws @ [list_validation 16 rng]\<rparr>)"
  unfolding list_validation_def
  by (rule create_dropdown_Inr, rule dropdown_ranges)+

lemma on_sheet_Inr:
  "f (sheets wb ! i) = Inr ws \<Longrightarrow> on_sheet i f wb = Inr (wb\<lparr>sheets := (sheets wb)[i := ws]\<rparr>)"
  by (simp add: on_sheet_def)

lemma lengths:
  "length headers = 19" "length column_widths = 19" "length choices_data = 11"
  "length sample_data = 2" "length (sample_data ! 0) = 19" "length (sample_data ! Suc 0) = 19"
  by (simp_all add: headers_def column_widths_def choices_data_def sample_data_def)

text \<open>
  The sheets of the workbook do not depend on the time of the run: the same three
  sheets are assembled whatever the clock reads.
\<close>

lemma build_workbook_sheets:
  "\<exists>sh ch ins.
     (\<forall>now. build_workbook now =
        Inr \<lparr>sheets = [sh, ch, ins], active_sheet_index = 0, created = now\<rparr>)
     \<and> title sh = ''Shipments'' \<and> cell_value sh = shipments_contents
     \<and> data_validations sh =
          [list_validation 1 ''$A$2:$A$4'', list_validation 14 ''$B$2:$B$4'',
           list_validation 8 ''$C$2:$C$11'', list_validation 12 ''$C$2:$C$11'',
           list_validation 4 ''$G$2:$G$26'', list_validation 5 ''$H$2:$H$15'',
           list_validation 16 ''$I$2:$I$3'']
     \<and> title ch = ''Choices'' \<and> cell_value ch = choices_contents \<and> data_validations ch = []
     \<and> title ins = ''Instructions'' \<and> data_validations ins = []"
proof -
  obtain s1 where s1: "add_headers 1 headers (new_sheet ''Shipments'') = Inr s1"
      "title s1 = ''Shipments''" "data_validations s1 = []"
      "\<And>r c. cell_value s1 r c =
           (if r = 1 \<and> 1 \<le> c \<and> c < 1 + length headers then Some (headers ! (c - 1)) else None)"
    using add_headers_ok [of 1 headers "new_sheet ''Shipments''"]
    by (auto simp add: new_sheet_def cell_value_def)
  obtain s2 where s2: "set_column_widths 1 column_widths s1 = Inr s2"
      "title s2 = title s1" "data_validations s2 = data_validations s1"
      "\<And>r c. cell_value s2 r c = cell_value s1 r c"
    using set_column_widths_ok [of 1 column_widths s1]
    by (auto simp add: lengths)
  obtain c1 where c1: "add_choices 1 choices_data (new_sheet ''Choices'') = Inr c1"
      "title c1 = ''Choices''" "data_validations c1 = []"
      "\<And>r c. cell_value c1 r c =
           (if 1 \<le> c \<and> c < 1 + length choices_data
            then (if r = 1 then Some (str_replace (CHR ''_'') (CHR '' '') (fst (choices_data ! (c - 1))))
                  else if 2 \<le> r \<and> r < 2 + length (snd (choices_data ! (c - 1)))
                    then Some (snd (choices_data ! (c - 1)) ! (r - 2))
                  else None)
            else None)"
    using add_choices_ok [of 1 choices_data "new_sheet ''Choices''"]
    by (auto simp add: new_sheet_def cell_value_def lengths)
  define s3 where "s3 = s2\<lparr>data_validations :=
          [list_validation 1 ''$A$2:$A$4'', list_validation 14 ''$B$2:$B$4'',
           list_validation 8 ''$C$2:$C$11'', list_validation 12 ''$C$2:$C$11'',
           list_validation 4 ''$G$2:$G$26'', list_validation 5 ''$H$2:$H$15'',
           list_validation 16 ''$I$2:$I$3'']\<rparr>"
  obtain s4 where s4: "add_sample_data 2 sample_data s3 = Inr s4"
      "title s4 = title s3" "data_validations s4 = data_validations s3"
      "\<And>r c. cell_value s4 r c =
           (if 2 \<le> r \<and> r < 2 + length sample_data \<and> 1 \<le> c \<and> c < 1 + length (sample_data ! (r - 2))
            then Some (sample_data ! (r - 2) ! (c - 1))
            else cell_value s3 r c)"
    using add_sample_data_ok [of 2 sample_data s3] by auto
  obtain i1 where i1: "add_instructions 1 instructions (set_width ''A'' 80 (new_sheet ''Instructions'')) = Inr i1"
      "title i1 = ''Instructions''" "data_validations i1 = []"
    using add_instructions_ok [of 1 instructions "set_width ''A'' 80 (new_sheet ''Instructions'')"]
    by (auto simp add: new_sheet_def set_width_def)
  have build: "build_workbook now =
      Inr \<lparr>sheets = [s4, c1, i1], active_sheet_index = 0, created = now\<rparr>" for now
    using s1(1) s2(1) c1(1) s4(1) i1(1) s2(3) s1(3)
    by (simp add: build_workbook_def Workbook_def wb_remove_def create_sheet_def on_sheet_def
        set_active_def create_dropdown_letters s3_def)
  have s3c: "cell_value s3 r c = cell_value s2 r c" for r c
    by (simp add: s3_def cell_value_def)
  have sh: "cell_value s4 = shipments_contents"
  proof (intro ext)
    fix r c :: nat
    have "r = 2 \<or> r = 3 \<or> r < 2 \<or> 3 < r" by arith
    then show "cell_value s4 r c = shipments_contents r c"
      by (auto simp add: s4(4) s3c s2(4) s1(4) shipments_contents_def lengths)
  qed
  have ch: "cell_value c1 = choices_contents"
    by (intro ext) (auto simp add: c1(4) choices_contents_def lengths)
  have dv: "data_validations s4 =
          [list_validation 1 ''$A$2:$A$4'', list_validation 14 ''$B$2:$B$4'',
           list_validation 8 ''$C$2:$C$11'', list_validation 12 ''$C$2:$C$11'',
           list_validation 4 ''$G$2:$G$26'', list_validation 5 ''$H$2:$H$15'',
           list_validation 16 ''$I$2:$I$3'']"
    by (simp add: s4(3) s3_def)
  have ti: "title s4 = ''Shipments''"
    by (simp add: s4(2) s3_def s2(2) s1(2))
  show ?thesis
    by (intro exI [of _ s4] exI [of _ c1] exI [of _ i1])
      (simp add: build sh ch dv ti c1(2,3) i1(2,3))
qed

lemma build_workbook_ok:
  "\<exists>wb sh ch ins. build_workbook now = Inr wb \<and> sheets wb = [sh, ch, ins]
     \<and> active_sheet_index wb = 0
     \<and> title sh = ''Shipments'' \<and> cell_value sh = shipments_contents
     \<and> data_validations sh =
          [list_validation 1 ''$A$2:$A$4'', list_validation 14 ''$B$2:$B$4'',
           list_validation 8 ''$C$2:$C$11'', list_validation 12 ''$C$2:$C$11'',
           list_validation 4 ''$G$2:$G$26'', list_validation 5 ''$H$2:$H$15'',
           list_validation 16 ''$I$2:$I$3'']
     \<and> title ch = ''Choices'' \<and> cell_value ch = choices_contents \<and> data_validations ch = []
     \<and> title ins = ''Instructions'' \<and> data_validations ins = []"
proof -
  obtain sh ch ins where
    b: "\<And>now. build_workbook now =
        Inr \<lparr>sheets = [sh, ch, ins], active_sheet_index = 0, created = now\<rparr>"
    and p: "title sh = ''Shipments'' \<and> cell_value sh = shipments_contents
     \<and> data_validations sh =
          [list_validation 1 ''$A$2:$A$4'', list_validation 14 ''$B$2:$B$4'',
           list_validation 8 ''$C$2:$C$11'', list_validation 12 ''$C$2:$C$11'',
           list_validation 4 ''$G$2:$G$26'', list_validation 5 ''$H$2:$H$15'',
           list_validation 16 ''$I$2:$I$3'']
     \<and> title ch = ''Choices'' \<and> cell_value ch = choices_contents \<and> data_validations ch = []
     \<and> title ins = ''Instructions'' \<and> data_validations ins = []"
    using build_workbook_sheets by blast
  show ?thesis
    by (intro exI [of _ "\<lparr>sheets = [sh, ch, ins], active_sheet_index = 0, created = now\<rparr>"]
        exI [of _ sh] exI [of _ ch] exI [of _ ins])
      (simp add: b p)
qed

section \<open>The generated workbook\<close>

lemma py_print_files: "files (snd (py_print env line st)) = files st"
  by (simp add: py_print_def)

lemma seq_files:
  assumes "\<And>st. files (snd (a st)) = files st" and "\<And>st. files (snd (b st)) = files st"
  shows "files (snd (seq a b st)) = files st"
proof (cases "a st")
  case (Pair r st')
  have "files st' = files st"
    using assms(1) [of st] Pair by simp
  then show ?thesis
    using assms(2) [of st'] Pair by (cases r) (simp_all add: seq_def)
qed

lemma create_files:
  assumes "build_workbook (clock env) = Inr wb" "save_failure env = None"
  shows "files (snd (create_bulk_shipments_template env st)) = (files st)(filename \<mapsto> wb)"
proof -
  have "files (snd (create_bulk_shipments_template env st)) =
      files (st\<lparr>files := (files st)(filename \<mapsto> wb)\<rparr>)"
    unfolding create_bulk_shipments_template_def assms(1) sum.case
    by (subst seq_def) (simp add: wb_save_def assms(2) seq_files py_print_files)
  then show ?thesis by simp
qed

lemma main_block_files:
  "files (snd (main_block env st)) = files (snd (create_bulk_shipments_template env st))"
proof (cases "create_bulk_shipments_template env st")
  case (Pair r st')
  then show ?thesis
    by (cases r) (simp_all add: main_block_def seq_files py_print_files)
qed

lemma run_script_files:
  assumes "pandas_installed env" "openpyxl_installed env"
  shows "files (snd (run_script env st)) = files (snd (main_block env st))"
proof (cases "main_block env st")
  case (Pair r st')
  then show ?thesis
    by (cases r) (simp_all add: run_script_def assms)
qed

lemma run_script_saves:
  assumes "build_workbook (clock env) = Inr wb" "pandas_installed env" "openpyxl_installed env"
    "save_failure env = None"
  shows "files (snd (run_script env st)) = (files st)(filename \<mapsto> wb)"
  by (simp add: run_script_files assms(2,3) main_block_files create_files [OF assms(1,4)])

text \<open>
  Claim C3. Whatever the clock reads, the script assembles a workbook without raising;
  the workbook has exactly three sheets, titled Shipments, Choices and Instructions;
  its active sheet is Shipments; and it is the workbook that a run in an environment
  with both packages and a writable directory saves under the output file name,
  whatever the standard output accepts.
\<close>

theorem three_sheets_shipments_active:
  "\<exists>wb. build_workbook now = Inr wb
     \<and> map title (sheets wb) = [''Shipments'', ''Choices'', ''Instructions'']
     \<and> active_sheet_index wb < length (sheets wb)
     \<and> title (sheets wb ! active_sheet_index wb) = ''Shipments''
     \<and> files (snd (run_script
            \<lparr>pandas_installed = True, openpyxl_installed = True, save_failure = None,
             clock = now, stdout_accepts = acc, encode_error = msg\<rparr> st))
          filename = Some wb"
proof -
  obtain wb sh ch ins where wb: "build_workbook now = Inr wb" "sheets wb = [sh, ch, ins]"
      "active_sheet_index wb = 0" "title sh = ''Shipments''" "title ch = ''Choices''"
      "title ins = ''Instructions''"
    using build_workbook_ok by blast
  show ?thesis
    by (rule exI [of _ wb]) (simp add: wb run_script_saves)
qed

subsection \<open>The Shipments header row\<close>

lemma header_row: "map (shipments_contents 1) [1..<20] = map Some headers"
  by code_simp

lemma header_ends:
  "shipments_contents 1 1 = Some ''Client Email''" "shipments_contents 1 19 = Some ''Notes''"
  by code_simp+

lemma header_columns: "{c. shipments_contents 1 c \<noteq> None} = {1..19}"
  by (auto simp add: shipments_contents_def)

text \<open>
  Claim C4. Row 1 of the Shipments sheet (the first sheet) holds the 19 header strings
  of the script in columns 1 to 19, in their order, with \<open>Client Email\<close> in A1 and
  \<open>Notes\<close> in column 19, and the populated cells of row 1 are exactly those of columns
  1 to 19.
\<close>

theorem shipments_header_row:
  "\<exists>wb. build_workbook now = Inr wb
     \<and> title (sheets wb ! 0) = ''Shipments''
     \<and> length headers = 19
     \<and> map (cell_value (sheets wb ! 0) 1) [1..<20] = map Some headers
     \<and> cell_value (sheets wb ! 0) 1 1 = Some ''Client Email''
     \<and> cell_value (sheets wb ! 0) 1 19 = Some ''Notes''
     \<and> {c. cell_value (sheets wb ! 0) 1 c \<noteq> None} = {1..19}"
proof -
  obtain wb sh ch ins where wb: "build_workbook now = Inr wb" "sheets wb = [sh, ch, ins]"
      "title sh = ''Shipments''" "cell_value sh = shipments_contents"
    using build_workbook_ok by blast
  show ?thesis
    using header_row header_ends header_columns
    by (intro exI [of _ wb]) (simp add: wb lengths)
qed

subsection \<open>The Choices sheet\<close>

lemma category_sizes:
  "map_option length (map_of choices_data ''Cities'') = Some 10"
  "map_option length (map_of choices_data ''Package_Values'') = Some 14"
  by code_simp+

lemma choices_A1: "choices_contents 1 1 = Some ''Client Emails''"
  by code_simp

text \<open>
  Claim C5. The cells of the Choices sheet (the second sheet) are exactly those of
  \<open>choices_contents\<close>: column \<open>c\<close>, for \<open>c\<close> from 1 to the number of categories, holds
  the \<open>c\<close>-th category, its name with underscores replaced by spaces in row 1 and its
  N items in rows 2 to N + 1, and no other cell is populated. There are 11 categories,
  Cities has 10 items, Package_Values has 14, and A1 is \<open>Client Emails\<close>.
\<close>

theorem choices_columns:
  "\<exists>wb. build_workbook now = Inr wb
     \<and> title (sheets wb ! 1) = ''Choices''
     \<and> cell_value (sheets wb ! 1) = choices_contents
     \<and> length choices_data = 11
     \<and> map_option length (map_of choices_data ''Cities'') = Some 10
     \<and> map_option length (map_of choices_data ''Package_Values'') = Some 14
     \<and> cell_value (sheets wb ! 1) 1 1 = Some ''Client Emails''"
proof -
  obtain wb sh ch ins where wb: "build_workbook now = Inr wb" "sheets wb = [sh, ch, ins]"
      "title ch = ''Choices''" "cell_value ch = choices_contents"
    using build_workbook_ok by blast
  show ?thesis
    using choices_A1
    by (intro exI [of _ wb]) (simp add: wb lengths category_sizes)
qed

subsection \<open>The dropdown bindings\<close>

text \<open>
  Claim C9, where the code departs from it. All data validations of the workbook are on the Shipments
  sheet. Each of the seven applies to rows 2 to 1000 of its column and carries the
  error title \<open>Invalid Entry\<close> and the error text \<open>Please select a value from the
  dropdown list\<close>, but has \<open>showErrorMessage\<close> off: the script never sets it, and the
  constructor leaves it off. So an application shows no error alert for any of them.
\<close>

theorem error_alert_switched_off:
  "\<exists>wb. build_workbook now = Inr wb
     \<and> concat (map data_validations (sheets wb)) = data_validations (sheets wb ! 0)
     \<and> map (\<lambda>dv. (sqref dv, errorTitle dv, dv_error dv, showErrorMessage dv, error_alert dv))
          (data_validations (sheets wb ! 0)) =
         [([(1, 2, 1, 1000)], Some ''Invalid Entry'',
             Some ''Please select a value from the dropdown list'', False, None),
          ([(14, 2, 14, 1000)], Some ''Invalid Entry'',
             Some ''Please select a value from the dropdown list'', False, None),
          ([(8, 2, 8, 1000)], Some ''Invalid Entry'',
             Some ''Please select a value from the dropdown list'', False, None),
          ([(12, 2, 12, 1000)], Some ''Invalid Entry'',
             Some ''Please select a value from the dropdown list'', False, None),
          ([(4, 2, 4, 1000)], Some ''Invalid Entry'',
             Some ''Please select a value from the dropdown list'', False, None),
          ([(5, 2, 5, 1000)], Some ''Invalid Entry'',
             Some ''Please select a value from the dropdown list'', False, None),
          ([(16, 2, 16, 1000)], Some ''Invalid Entry'',
             Some ''Please select a value from the dropdown list'', False, None)]"
proof -
  obtain wb sh ch ins where wb: "build_workbook now = Inr wb" "sheets wb = [sh, ch, ins]"
      "data_validations sh =
          [list_validation 1 ''$A$2:$A$4'', list_validation 14 ''$B$2:$B$4'',
           list_validation 8 ''$C$2:$C$11'', list_validation 12 ''$C$2:$C$11'',
           list_validation 4 ''$G$2:$G$26'', list_validation 5 ''$H$2:$H$15'',
           list_validation 16 ''$I$2:$I$3'']"
      "data_validations ch = []" "data_validations ins = []"
    using build_workbook_ok by blast
  show ?thesis
    by (rule exI [of _ wb]) (simp add: wb list_validation_def error_alert_def)
qed

lemma source_references:
  "source_reference (formula1 (list_validation c ''$A$2:$A$4'')) = Some (''Choices'', (1, 2, 1, 4))"
  "source_reference (formula1 (list_validation c ''$B$2:$B$4'')) = Some (''Choices'', (2, 2, 2, 4))"
  "source_reference (formula1 (list_validation c ''$C$2:$C$11'')) = Some (''Choices'', (3, 2, 3, 11))"
  "source_reference (formula1 (list_validation c ''$G$2:$G$26'')) = Some (''Choices'', (7, 2, 7, 26))"
  "source_reference (formula1 (list_validation c ''$H$2:$H$15'')) = Some (''Choices'', (8, 2, 8, 15))"
  "source_reference (formula1 (list_validation c ''$I$2:$I$3'')) = Some (''Choices'', (9, 2, 9, 3))"
  unfolding list_validation_def data_validation.simps
  by code_simp+

lemma category_ranges:
  "map category_range [1, 2, 3, 7, 8, 9] =
     [(1, 2, 1, 4), (2, 2, 2, 4), (3, 2, 3, 11), (7, 2, 7, 26), (8, 2, 8, 15), (9, 2, 9, 3)]"
  by code_simp

lemma bound_categories:
  "map (\<lambda>i. fst (choices_data ! (i - 1))) [1, 2, 3, 7, 8, 9] =
     [''Client_Emails'', ''Payment_Methods'', ''Cities'', ''Package_Descriptions'',
      ''Package_Values'', ''Large_Order_Options'']"
  by code_simp

lemma bound_fields:
  "map (\<lambda>c. headers ! (c - 1)) [1, 14, 8, 12, 4, 5, 16] =
     [''Client Email'', ''Payment Method'', ''From City'', ''To City'', ''Package Description'',
      ''Package Value (EGP)'', ''Is Large Order'']"
  by code_simp

lemma category_rows:
  "1 \<le> i \<Longrightarrow> i \<le> length choices_data \<Longrightarrow>
   {r. 2 \<le> r \<and> choices_contents r i \<noteq> None} = {r. in_range (category_range i) r i}"
  by (auto simp add: choices_contents_def in_range_def category_range_def)

lemma bound_category_rows:
  "list_all (\<lambda>i. {r. 2 \<le> r \<and> choices_contents r i \<noteq> None} = {r. in_range (category_range i) r i})
     [1, 2, 3, 7, 8, 9]"
  using category_rows [of 1] category_rows [of 2] category_rows [of 3]
    category_rows [of 7] category_rows [of 8] category_rows [of 9]
  by (simp add: lengths)

text \<open>
  Claim C1. Each of the seven validations on Shipments, listed with the cells it applies
  to, has a formula that refers to the Choices sheet and, there, to exactly the range
  specified for a category: column = the position of the category in \<open>choices_data\<close>,
  rows 2 to 1 + the number of its items. The populated cells below the header of that
  Choices column are exactly the rows of the range. The field to category bindings are
  Client Email to Client_Emails (rows 2 to 4), Payment Method to Payment_Methods (2 to
  4), From City and To City to Cities (2 to 11), Package Description to
  Package_Descriptions (2 to 26), Package Value to Package_Values (2 to 15) and Is Large
  Order to Large_Order_Options (2 to 3).
\<close>

theorem source_ranges_match_categories:
  "\<exists>wb. build_workbook now = Inr wb
     \<and> map (\<lambda>dv. (sqref dv, source_reference (formula1 dv))) (data_validations (sheets wb ! 0)) =
         [([(1, 2, 1, 1000)], Some (''Choices'', category_range 1)),
          ([(14, 2, 14, 1000)], Some (''Choices'', category_range 2)),
          ([(8, 2, 8, 1000)], Some (''Choices'', category_range 3)),
          ([(12, 2, 12, 1000)], Some (''Choices'', category_range 3)),
          ([(4, 2, 4, 1000)], Some (''Choices'', category_range 7)),
          ([(5, 2, 5, 1000)], Some (''Choices'', category_range 8)),
          ([(16, 2, 16, 1000)], Some (''Choices'', category_range 9))]
     \<and> title (sheets wb ! 1) = ''Choices''
     \<and> list_all (\<lambda>i. {r. 2 \<le> r \<and> cell_value (sheets wb ! 1) r i \<noteq> None}
                      = {r. in_range (category_range i) r i}) [1, 2, 3, 7, 8, 9]
     \<and> map category_range [1, 2, 3, 7, 8, 9] =
         [(1, 2, 1, 4), (2, 2, 2, 4), (3, 2, 3, 11), (7, 2, 7, 26), (8, 2, 8, 15), (9, 2, 9, 3)]
     \<and> map (\<lambda>i. fst (choices_data ! (i - 1))) [1, 2, 3, 7, 8, 9] =
         [''Client_Emails'', ''Payment_Methods'', ''Cities'', ''Package_Descriptions'',
          ''Package_Values'', ''Large_Order_Options'']
     \<and> map (\<lambda>c. headers ! (c - 1)) [1, 14, 8, 12, 4, 5, 16] =
         [''Client Email'', ''Payment Method'', ''From City'', ''To City'', ''Package Description'',
          ''Package Value (EGP)'', ''Is Large Order'']"
proof -
  obtain wb sh ch ins where wb: "build_workbook now = Inr wb" "sheets wb = [sh, ch, ins]"
      "data_validations sh =
          [list_validation 1 ''$A$2:$A$4'', list_validation 14 ''$B$2:$B$4'',
           list_validation 8 ''$C$2:$C$11'', list_validation 12 ''$C$2:$C$11'',
           list_validation 4 ''$G$2:$G$26'', list_validation 5 ''$H$2:$H$15'',
           list_validation 16 ''$I$2:$I$3'']"
      "title ch = ''Choices''" "cell_value ch = choices_contents"
    using build_workbook_ok by blast
  have sh: "sheets wb ! 0 = sh" and ch: "sheets wb ! 1 = ch"
    by (simp_all add: wb(2))
  have sq: "sqref (list_validation c rng) = [(c, 2, c, 1000)]" for c rng
    by (simp add: list_validation_def)
  have cr: "category_range 1 = (1, 2, 1, 4)" "category_range 2 = (2, 2, 2, 4)"
      "category_range 3 = (3, 2, 3, 11)" "category_range 7 = (7, 2, 7, 26)"
      "category_range 8 = (8, 2, 8, 15)" "category_range 9 = (9, 2, 9, 3)"
    using category_ranges by simp_all
  have bindings: "map (\<lambda>dv. (sqref dv, source_reference (formula1 dv)))
        (data_validations (sheets wb ! 0)) =
         [([(1, 2, 1, 1000)], Some (''Choices'', category_range 1)),
          ([(14, 2, 14, 1000)], Some (''Choices'', category_range 2)),
          ([(8, 2, 8, 1000)], Some (''Choices'', category_range 3)),
          ([(12, 2, 12, 1000)], Some (''Choices'', category_range 3)),
          ([(4, 2, 4, 1000)], Some (''Choices'', category_range 7)),
          ([(5, 2, 5, 1000)], Some (''Choices'', category_range 8)),
          ([(16, 2, 16, 1000)], Some (''Choices'', category_range 9))]"
    unfolding sh wb(3) cr by (simp only: list.map sq source_references)
  have rows: "list_all (\<lambda>i. {r. 2 \<le> r \<and> cell_value (sheets wb ! 1) r i \<noteq> None}
                      = {r. in_range (category_range i) r i}) [1, 2, 3, 7, 8, 9]"
    unfolding ch wb(5) by (rule bound_category_rows)
  have ti: "title (sheets wb ! 1) = ''Choices''"
    unfolding ch by (rule wb(4))
  show ?thesis
    by (intro exI [of _ wb] conjI)
      (rule wb(1) bindings ti rows category_ranges bound_categories bound_fields)+
qed

lemma constrained_cells:
  assumes "data_validations ws =
          [list_validation 1 a, list_validation 14 b, list_validation 8 c1,
           list_validation 12 c2, list_validation 4 d, list_validation 5 e,
           list_validation 16 f]"
  shows "constrained ws r c = (2 \<le> r \<and> r \<le> 1000 \<and> c \<in> {1, 4, 5, 8, 12, 14, 16})"
  by (auto simp add: assms constrained_def list_validation_def in_range_def)

lemma constrained_columns:
  assumes "data_validations ws =
          [list_validation 1 a, list_validation 14 b, list_validation 8 c1,
           list_validation 12 c2, list_validation 4 d, list_validation 5 e,
           list_validation 16 f]"
  shows "{c. \<exists>r. constrained ws r c} = {1, 4, 5, 8, 12, 14, 16}"
proof -
  have "(\<exists>r. constrained ws r c) = (c \<in> {1, 4, 5, 8, 12, 14, 16})" for c
    unfolding constrained_cells [OF assms] by (auto intro: exI [of _ 2])
  then show ?thesis by blast
qed

lemma constrained_fields:
  "map (\<lambda>c. headers ! (c - 1)) [1, 4, 5, 8, 12, 14, 16] =
     [''Client Email'', ''Package Description'', ''Package Value (EGP)'', ''From City'',
      ''To City'', ''Payment Method'', ''Is Large Order'']"
  by code_simp

text \<open>
  Claim C2, as amended. The Shipments sheet carries seven list validations, one on
  each of the seven columns A, D, E, H, L, N and P (Client Email, Package Description,
  Package Value, From City, To City, Payment Method, Is Large Order); each applies to
  exactly rows 2 to 1000 of its column, so that a cell is constrained if and only if it
  lies in one of these columns and in rows 2 to 1000; no cell of row 1001 is
  constrained. The seven validations have six distinct source formulas (From City and
  To City share one).
\<close>

theorem seven_columns_rows_2_to_1000:
  "\<exists>wb. build_workbook now = Inr wb
     \<and> map (\<lambda>dv. (dv_type dv, sqref dv)) (data_validations (sheets wb ! 0)) =
         [(''list'', [(1, 2, 1, 1000)]), (''list'', [(14, 2, 14, 1000)]),
          (''list'', [(8, 2, 8, 1000)]), (''list'', [(12, 2, 12, 1000)]),
          (''list'', [(4, 2, 4, 1000)]), (''list'', [(5, 2, 5, 1000)]),
          (''list'', [(16, 2, 16, 1000)])]
     \<and> (\<forall>r c. constrained (sheets wb ! 0) r c =
           (2 \<le> r \<and> r \<le> 1000 \<and> c \<in> {1, 4, 5, 8, 12, 14, 16}))
     \<and> (\<forall>c. \<not> constrained (sheets wb ! 0) 1001 c)
     \<and> card {c. \<exists>r. constrained (sheets wb ! 0) r c} = 7
     \<and> length (remdups (map formula1 (data_validations (sheets wb ! 0)))) = 6
     \<and> map (\<lambda>c. headers ! (c - 1)) [1, 4, 5, 8, 12, 14, 16] =
         [''Client Email'', ''Package Description'', ''Package Value (EGP)'', ''From City'',
          ''To City'', ''Payment Method'', ''Is Large Order'']"
proof -
  obtain wb sh ch ins where wb: "build_workbook now = Inr wb" "sheets wb = [sh, ch, ins]"
      "data_validations sh =
          [list_validation 1 ''$A$2:$A$4'', list_validation 14 ''$B$2:$B$4'',
           list_validation 8 ''$C$2:$C$11'', list_validation 12 ''$C$2:$C$11'',
           list_validation 4 ''$G$2:$G$26'', list_validation 5 ''$H$2:$H$15'',
           list_validation 16 ''$I$2:$I$3'']"
    using build_workbook_ok by blast
  have sh: "sheets wb ! 0 = sh"
    by (simp add: wb(2))
  have ranges: "map (\<lambda>dv. (dv_type dv, sqref dv)) (data_validations (sheets wb ! 0)) =
         [(''list'', [(1, 2, 1, 1000)]), (''list'', [(14, 2, 14, 1000)]),
          (''list'', [(8, 2, 8, 1000)]), (''list'', [(12, 2, 12, 1000)]),
          (''list'', [(4, 2, 4, 1000)]), (''list'', [(5, 2, 5, 1000)]),
          (''list'', [(16, 2, 16, 1000)])]"
    unfolding sh wb(3) by (simp add: list_validation_def)
  have cells: "\<forall>r c. constrained (sheets wb ! 0) r c =
           (2 \<le> r \<and> r \<le> 1000 \<and> c \<in> {1, 4, 5, 8, 12, 14, 16})"
    unfolding sh constrained_cells [OF wb(3)] by simp
  have beyond: "\<forall>c. \<not> constrained (sheets wb ! 0) 1001 c"
    unfolding sh constrained_cells [OF wb(3)] by simp
  have count: "card {c. \<exists>r. constrained (sheets wb ! 0) r c} = 7"
    unfolding sh constrained_columns [OF wb(3)] by simp
  have sources: "length (remdups (map formula1 (data_validations (sheets wb ! 0)))) = 6"
    unfolding sh wb(3) by (simp add: list_validation_def)
  show ?thesis
    by (intro exI [of _ wb] conjI)
      (rule wb(1) ranges cells beyond count sources constrained_fields)+
qed

text \<open>
  Claim C2 as stated counts six constrained columns. In no run is the number of
  columns of Shipments with a constrained cell six.
\<close>

theorem not_six_constrained_columns:
  "\<not> (\<exists>now wb. build_workbook now = Inr wb
          \<and> card {c. \<exists>r. constrained (sheets wb ! 0) r c} = 6)"
proof
  assume "\<exists>now wb. build_workbook now = Inr wb
          \<and> card {c. \<exists>r. constrained (sheets wb ! 0) r c} = 6"
  then obtain now wb' where six: "build_workbook now = Inr wb'"
      "card {c. \<exists>r. constrained (sheets wb' ! 0) r c} = 6"
    by blast
  obtain wb sh ch ins where wb: "build_workbook now = Inr wb" "sheets wb = [sh, ch, ins]"
      "data_validations sh =
          [list_validation 1 ''$A$2:$A$4'', list_validation 14 ''$B$2:$B$4'',
           list_validation 8 ''$C$2:$C$11'', list_validation 12 ''$C$2:$C$11'',
           list_validation 4 ''$G$2:$G$26'', list_validation 5 ''$H$2:$H$15'',
           list_validation 16 ''$I$2:$I$3'']"
    using build_workbook_ok by blast
  have "(Inr wb' :: exn + workbook) = Inr wb"
    unfolding six(1) [symmetric] by (rule wb(1))
  then have same: "wb' = wb"
    by simp
  have sh: "sheets wb ! 0 = sh"
    by (simp add: wb(2))
  have "card {c. \<exists>r. constrained (sheets wb ! 0) r c} = 7"
    unfolding sh constrained_columns [OF wb(3)] by simp
  with six(2) same show False by simp
qed

subsection \<open>The sample rows\<close>

lemma allowed_values_choices:
  assumes "sheets wb = [sh, ch, ins]" "title sh = ''Shipments''" "title ch = ''Choices''"
    and "cell_value ch = choices_contents"
    and "source_reference (formula1 dv) = Some (''Choices'', b)"
  shows "allowed_values wb dv = values_in choices_contents b"
  by (simp add: allowed_values_def range_values_def assms)

lemma samples_in_choices:
  "list_all (\<lambda>r. case shipments_contents r 1 of None \<Rightarrow> False
       | Some v \<Rightarrow> v \<in> set (values_in choices_contents (1, 2, 1, 4))) [2, 3]"
  "list_all (\<lambda>r. case shipments_contents r 14 of None \<Rightarrow> False
       | Some v \<Rightarrow> v \<in> set (values_in choices_contents (2, 2, 2, 4))) [2, 3]"
  "list_all (\<lambda>r. case shipments_contents r 8 of None \<Rightarrow> False
       | Some v \<Rightarrow> v \<in> set (values_in choices_contents (3, 2, 3, 11))) [2, 3]"
  "list_all (\<lambda>r. case shipments_contents r 12 of None \<Rightarrow> False
       | Some v \<Rightarrow> v \<in> set (values_in choices_contents (3, 2, 3, 11))) [2, 3]"
  "list_all (\<lambda>r. case shipments_contents r 4 of None \<Rightarrow> False
       | Some v \<Rightarrow> v \<in> set (values_in choices_contents (7, 2, 7, 26))) [2, 3]"
  "list_all (\<lambda>r. case shipments_contents r 5 of None \<Rightarrow> False
       | Some v \<Rightarrow> v \<in> set (values_in choices_contents (8, 2, 8, 15))) [2, 3]"
  "list_all (\<lambda>r. case shipments_contents r 16 of None \<Rightarrow> False
       | Some v \<Rightarrow> v \<in> set (values_in choices_contents (9, 2, 9, 3))) [2, 3]"
  by code_simp+

lemma sample_column:
  assumes "allowed_values wb (list_validation c rng) = values_in choices_contents b"
    and "cell_value sh = shipments_contents"
    and "list_all (\<lambda>r. case shipments_contents r c of None \<Rightarrow> False
            | Some v \<Rightarrow> v \<in> set (values_in choices_contents b)) [2, 3]"
  shows "sqref (list_validation c rng) \<noteq> [] \<and>
     list_all (\<lambda>(c1, r1, c2, r2).
        list_all (\<lambda>c'. list_all (\<lambda>r. case cell_value sh r c' of None \<Rightarrow> False
              | Some v \<Rightarrow> v \<in> set (allowed_values wb (list_validation c rng))) [2, 3])
          [c1..<Suc c2]) (sqref (list_validation c rng))"
proof -
  have sq: "sqref (list_validation c rng) = [(c, 2, c, 1000)]"
    by (simp add: list_validation_def)
  show ?thesis
    unfolding sq assms(1) assms(2) using assms(3) by simp
qed

text \<open>
  Claim C6. For each of the seven validations on Shipments and each cell of sample rows
  2 and 3 in a column it applies to, the cell holds a value, and the value is among the
  values stored in the range of Choices that the validation's formula refers to.
\<close>

theorem samples_satisfy_dropdowns:
  "\<exists>wb. build_workbook now = Inr wb
     \<and> length (data_validations (sheets wb ! 0)) = 7
     \<and> list_all (\<lambda>dv. sqref dv \<noteq> [] \<and>
          list_all (\<lambda>(c1, r1, c2, r2).
            list_all (\<lambda>c. list_all (\<lambda>r. case cell_value (sheets wb ! 0) r c of None \<Rightarrow> False
                  | Some v \<Rightarrow> v \<in> set (allowed_values wb dv)) [2, 3])
              [c1..<Suc c2]) (sqref dv))
        (data_validations (sheets wb ! 0))"
proof -
  obtain wb sh ch ins where wb: "build_workbook now = Inr wb" "sheets wb = [sh, ch, ins]"
      "title sh = ''Shipments''" "cell_value sh = shipments_contents"
      "data_validations sh =
          [list_validation 1 ''$A$2:$A$4'', list_validation 14 ''$B$2:$B$4'',
           list_validation 8 ''$C$2:$C$11'', list_validation 12 ''$C$2:$C$11'',
           list_validation 4 ''$G$2:$G$26'', list_validation 5 ''$H$2:$H$15'',
           list_validation 16 ''$I$2:$I$3'']"
      "title ch = ''Choices''" "cell_value ch = choices_contents"
    using build_workbook_ok by blast
  have sh: "sheets wb ! 0 = sh"
    by (simp add: wb(2))
  note av = allowed_values_choices [OF wb(2) wb(3) wb(6) wb(7)]
  note col = sample_column [OF _ wb(4)]
  have n: "length (data_validations (sheets wb ! 0)) = 7"
    unfolding sh wb(5) by simp
  define P where "P = (\<lambda>dv. sqref dv \<noteq> [] \<and>
          list_all (\<lambda>(c1, r1, c2, r2).
            list_all (\<lambda>c. list_all (\<lambda>r. case cell_value sh r c of None \<Rightarrow> False
                  | Some v \<Rightarrow> v \<in> set (allowed_values wb dv)) [2, 3])
              [c1..<Suc c2]) (sqref dv))"
  have each: "P (list_validation 1 ''$A$2:$A$4'')" "P (list_validation 14 ''$B$2:$B$4'')"
      "P (list_validation 8 ''$C$2:$C$11'')" "P (list_validation 12 ''$C$2:$C$11'')"
      "P (list_validation 4 ''$G$2:$G$26'')" "P (list_validation 5 ''$H$2:$H$15'')"
      "P (list_validation 16 ''$I$2:$I$3'')"
    unfolding P_def
    by (rule col [OF av [OF source_references(1)] samples_in_choices(1)]
        col [OF av [OF source_references(2)] samples_in_choices(2)]
        col [OF av [OF source_references(3)] samples_in_choices(3)]
        col [OF av [OF source_references(3)] samples_in_choices(4)]
        col [OF av [OF source_references(4)] samples_in_choices(5)]
        col [OF av [OF source_references(5)] samples_in_choices(6)]
        col [OF av [OF source_references(6)] samples_in_choices(7)])+
  have "list_all P (data_validations sh)"
    unfolding wb(5) using each by simp
  then have all: "list_all (\<lambda>dv. sqref dv \<noteq> [] \<and>
          list_all (\<lambda>(c1, r1, c2, r2).
            list_all (\<lambda>c. list_all (\<lambda>r. case cell_value (sheets wb ! 0) r c of None \<Rightarrow> False
                  | Some v \<Rightarrow> v \<in> set (allowed_values wb dv)) [2, 3])
              [c1..<Suc c2]) (sqref dv))
        (data_validations (sheets wb ! 0))"
    unfolding sh P_def .
  show ?thesis
    by (intro exI [of _ wb] conjI) (rule wb(1) n all)+
qed

subsection \<open>Choice columns without a dropdown\<close>

lemma choices_populated_columns: "{c. \<exists>r. choices_contents r c \<noteq> None} = {1..11}"
proof -
  have "(\<exists>r. choices_contents r c \<noteq> None) = (1 \<le> c \<and> c \<le> 11)" for c
    by (auto simp add: choices_contents_def lengths intro: exI [of _ 1])
  then show ?thesis by auto
qed

lemma column_rows:
  "1 \<le> c \<Longrightarrow> c \<le> length choices_data \<Longrightarrow>
   {r. choices_contents r c \<noteq> None} = {1..1 + length (snd (choices_data ! (c - 1)))}"
  by (auto simp add: choices_contents_def)

lemma unbound_sizes:
  "map (\<lambda>c. length (snd (choices_data ! (c - 1)))) [4, 5, 6, 10, 11] = [10, 10, 10, 10, 10]"
  by code_simp

lemma unbound_rows:
  "list_all (\<lambda>c. {r. choices_contents r c \<noteq> None} = {1..11}) [4, 5, 6, 10, 11]"
  using column_rows [of 4] column_rows [of 5] column_rows [of 6] column_rows [of 10]
    column_rows [of 11] unbound_sizes
  by (simp add: lengths)

lemma choices_headers:
  "map (choices_contents 1) [1, 2, 3, 7, 8, 9] =
     [Some ''Client Emails'', Some ''Payment Methods'', Some ''Cities'',
      Some ''Package Descriptions'', Some ''Package Values'', Some ''Large Order Options'']"
  "map (choices_contents 1) [4, 5, 6, 10, 11] =
     [Some ''Cairo Zones'', Some ''Alexandria Zones'', Some ''Giza Zones'',
      Some ''Street Examples'', Some ''Building Details'']"
  by code_simp+

lemma free_text_fields:
  "map (shipments_contents 1) [6, 7, 9, 10, 11, 13] =
     [Some ''From Street'', Some ''From Details'', Some ''From Zone'',
      Some ''To Street'', Some ''To Details'', Some ''To Zone'']"
  by code_simp

text \<open>
  Claim C10. The populated columns of Choices are columns 1 to 11 (A to K). The
  columns of Choices that some validation formula of the workbook refers to are 1, 2,
  3, 7, 8 and 9 (Client Emails, Payment Methods, Cities, Package Descriptions, Package
  Values, Large Order Options). Columns 4, 5, 6, 10 and 11 (Cairo Zones, Alexandria
  Zones, Giza Zones, Street Examples, Building Details) are populated in rows 1 to 11
  and referred to by none. The street, details and zone columns of Shipments have no
  constrained cell.
\<close>

theorem unbound_choice_columns:
  "\<exists>wb. build_workbook now = Inr wb
     \<and> {c. \<exists>r. cell_value (sheets wb ! 1) r c \<noteq> None} = {1..11}
     \<and> set (concat (map (\<lambda>dv. case source_reference (formula1 dv) of
                                 None \<Rightarrow> []
                               | Some (name, c1, r1, c2, r2) \<Rightarrow> [c1..<Suc c2])
                        (concat (map data_validations (sheets wb))))) = {1, 2, 3, 7, 8, 9}
     \<and> map (cell_value (sheets wb ! 1) 1) [1, 2, 3, 7, 8, 9] =
         [Some ''Client Emails'', Some ''Payment Methods'', Some ''Cities'',
          Some ''Package Descriptions'', Some ''Package Values'', Some ''Large Order Options'']
     \<and> map (cell_value (sheets wb ! 1) 1) [4, 5, 6, 10, 11] =
         [Some ''Cairo Zones'', Some ''Alexandria Zones'', Some ''Giza Zones'',
          Some ''Street Examples'', Some ''Building Details'']
     \<and> list_all (\<lambda>c. {r. cell_value (sheets wb ! 1) r c \<noteq> None} = {1..11}) [4, 5, 6, 10, 11]
     \<and> map (cell_value (sheets wb ! 0) 1) [6, 7, 9, 10, 11, 13] =
         [Some ''From Street'', Some ''From Details'', Some ''From Zone'',
          Some ''To Street'', Some ''To Details'', Some ''To Zone'']
     \<and> list_all (\<lambda>c. \<forall>r. \<not> constrained (sheets wb ! 0) r c) [6, 7, 9, 10, 11, 13]"
proof -
  obtain wb sh ch ins where wb: "build_workbook now = Inr wb" "sheets wb = [sh, ch, ins]"
      "cell_value sh = shipments_contents"
      "data_validations sh =
          [list_validation 1 ''$A$2:$A$4'', list_validation 14 ''$B$2:$B$4'',
           list_validation 8 ''$C$2:$C$11'', list_validation 12 ''$C$2:$C$11'',
           list_validation 4 ''$G$2:$G$26'', list_validation 5 ''$H$2:$H$15'',
           list_validation 16 ''$I$2:$I$3'']"
      "cell_value ch = choices_contents" "data_validations ch = []" "data_validations ins = []"
    using build_workbook_ok by blast
  have sh: "sheets wb ! 0 = sh" and ch: "sheets wb ! 1 = ch"
    by (simp_all add: wb(2))
  have cols: "{c. \<exists>r. cell_value (sheets wb ! 1) r c \<noteq> None} = {1..11}"
    unfolding ch wb(5) by (rule choices_populated_columns)
  have refs: "set (concat (map (\<lambda>dv. case source_reference (formula1 dv) of
                                 None \<Rightarrow> []
                               | Some (name, c1, r1, c2, r2) \<Rightarrow> [c1..<Suc c2])
                        (concat (map data_validations (sheets wb))))) = {1, 2, 3, 7, 8, 9}"
    unfolding wb(2) by (auto simp add: wb(4) wb(6) wb(7) source_references)
  have h1: "map (cell_value (sheets wb ! 1) 1) [1, 2, 3, 7, 8, 9] =
         [Some ''Client Emails'', Some ''Payment Methods'', Some ''Cities'',
          Some ''Package Descriptions'', Some ''Package Values'', Some ''Large Order Options'']"
    unfolding ch wb(5) by (rule choices_headers)
  have h2: "map (cell_value (sheets wb ! 1) 1) [4, 5, 6, 10, 11] =
         [Some ''Cairo Zones'', Some ''Alexandria Zones'', Some ''Giza Zones'',
          Some ''Street Examples'', Some ''Building Details'']"
    unfolding ch wb(5) by (rule choices_headers)
  have rows: "list_all (\<lambda>c. {r. cell_value (sheets wb ! 1) r c \<noteq> None} = {1..11})
      [4, 5, 6, 10, 11]"
    unfolding ch wb(5) by (rule unbound_rows)
  have h3: "map (cell_value (sheets wb ! 0) 1) [6, 7, 9, 10, 11, 13] =
         [Some ''From Street'', Some ''From Details'', Some ''From Zone'',
          Some ''To Street'', Some ''To Details'', Some ''To Zone'']"
    unfolding sh wb(3) by (rule free_text_fields)
  have free: "list_all (\<lambda>c. \<forall>r. \<not> constrained (sheets wb ! 0) r c) [6, 7, 9, 10, 11, 13]"
    unfolding sh constrained_cells [OF wb(4)] by simp
  show ?thesis
    by (intro exI [of _ wb] conjI) (rule wb(1) cols refs h1 h2 rows h3 free)+
qed

section \<open>Runs of the script\<close>

text \<open>
  Claim C7. Take any two runs in environments where both packages are installed and
  the output file can be written: at any two clock readings, with any two standard
  outputs, from any two states of the file system. Each run leaves a workbook under
  the output file name, and so does a second run started where the first one ended;
  the three workbooks have the same sheets (titles, cells with their values and styles,
  column widths, validations with their ranges and formulas) and the same active
  sheet. Only the creation time in the document properties follows the clock. A second
  run changes no file but the output file.
\<close>

theorem rerun_same_sheets:
  assumes "pandas_installed e1" "openpyxl_installed e1" "save_failure e1 = None"
    and "pandas_installed e2" "openpyxl_installed e2" "save_failure e2 = None"
  shows "\<exists>wb1 wb2 wb3.
       files (snd (run_script e1 s1)) filename = Some wb1
     \<and> files (snd (run_script e2 s2)) filename = Some wb2
     \<and> files (snd (run_script e2 (snd (run_script e1 s1)))) =
         (files (snd (run_script e1 s1)))(filename \<mapsto> wb3)
     \<and> sheets wb1 = sheets wb2 \<and> active_sheet_index wb1 = active_sheet_index wb2
     \<and> sheets wb3 = sheets wb1 \<and> active_sheet_index wb3 = active_sheet_index wb1
     \<and> created wb1 = clock e1 \<and> created wb2 = clock e2 \<and> created wb3 = clock e2"
proof -
  obtain sh ch ins where
    b: "\<And>now. build_workbook now =
        Inr \<lparr>sheets = [sh, ch, ins], active_sheet_index = 0, created = now\<rparr>"
    using build_workbook_sheets by blast
  note r1 = run_script_saves [OF b assms(1,2,3)]
  note r2 = run_script_saves [OF b assms(4,5,6)]
  show ?thesis
    by (intro exI [of _ "\<lparr>sheets = [sh, ch, ins], active_sheet_index = 0, created = clock e1\<rparr>"]
        exI [of _ "\<lparr>sheets = [sh, ch, ins], active_sheet_index = 0, created = clock e2\<rparr>"])
      (simp add: r1 r2)
qed

text \<open>
  The hypotheses of C7 hold for two environments with both packages and a writable
  directory that differ in the clock and in the standard output: a run at time 0 from
  an empty directory with an output that accepts every line, and a run a day later over
  an older output file with an output that accepts none.
\<close>

theorem rerun_same_sheets_witness:
  "pandas_installed \<lparr>pandas_installed = True, openpyxl_installed = True, save_failure = None,
       clock = 0, stdout_accepts = (\<lambda>line. True), encode_error = (\<lambda>line. [])\<rparr>
   \<and> openpyxl_installed \<lparr>pandas_installed = True, openpyxl_installed = True, save_failure = None,
       clock = 0, stdout_accepts = (\<lambda>line. True), encode_error = (\<lambda>line. [])\<rparr>
   \<and> save_failure \<lparr>pandas_installed = True, openpyxl_installed = True, save_failure = None,
       clock = 0, stdout_accepts = (\<lambda>line. True), encode_error = (\<lambda>line. [])\<rparr> = None
   \<and> pandas_installed \<lparr>pandas_installed = True, openpyxl_installed = True, save_failure = None,
       clock = 86400, stdout_accepts = (\<lambda>line. False), encode_error = (\<lambda>line. ''ascii'')\<rparr>
   \<and> openpyxl_installed \<lparr>pandas_installed = True, openpyxl_installed = True, save_failure = None,
       clock = 86400, stdout_accepts = (\<lambda>line. False), encode_error = (\<lambda>line. ''ascii'')\<rparr>
   \<and> save_failure \<lparr>pandas_installed = True, openpyxl_installed = True, save_failure = None,
       clock = 86400, stdout_accepts = (\<lambda>line. False), encode_error = (\<lambda>line. ''ascii'')\<rparr> = None
   \<and> (\<exists>wb1 wb2 wb3.
       files (snd (run_script
          \<lparr>pandas_installed = True, openpyxl_installed = True, save_failure = None,
           clock = 0, stdout_accepts = (\<lambda>line. True), encode_error = (\<lambda>line. [])\<rparr>
          \<lparr>files = Map.empty, stdout = []\<rparr>)) filename = Some wb1
     \<and> files (snd (run_script
          \<lparr>pandas_installed = True, openpyxl_installed = True, save_failure = None,
           clock = 86400, stdout_accepts = (\<lambda>line. False), encode_error = (\<lambda>line. ''ascii'')\<rparr>
          \<lparr>files = [filename \<mapsto> Workbook 7], stdout = [''earlier output'']\<rparr>)) filename = Some wb2
     \<and> files (snd (run_script
          \<lparr>pandas_installed = True, openpyxl_installed = True, save_failure = None,
           clock = 86400, stdout_accepts = (\<lambda>line. False), encode_error = (\<lambda>line. ''ascii'')\<rparr>
          (snd (run_script
            \<lparr>pandas_installed = True, openpyxl_installed = True, save_failure = None,
             clock = 0, stdout_accepts = (\<lambda>line. True), encode_error = (\<lambda>line. [])\<rparr>
            \<lparr>files = Map.empty, stdout = []\<rparr>)))) =
         (files (snd (run_script
            \<lparr>pandas_installed = True, openpyxl_installed = True, save_failure = None,
             clock = 0, stdout_accepts = (\<lambda>line. True), encode_error = (\<lambda>line. [])\<rparr>
            \<lparr>files = Map.empty, stdout = []\<rparr>)))(filename \<mapsto> wb3)
     \<and> sheets wb1 = sheets wb2 \<and> active_sheet_index wb1 = active_sheet_index wb2
     \<and> sheets wb3 = sheets wb1 \<and> active_sheet_index wb3 = active_sheet_index wb1
     \<and> created wb1 = 0 \<and> created wb2 = 86400 \<and> created wb3 = 86400)"
  using rerun_same_sheets
    [of "\<lparr>pandas_installed = True, openpyxl_installed = True, save_failure = None,
           clock = 0, stdout_accepts = (\<lambda>line. True), encode_error = (\<lambda>line. [])\<rparr>"
        "\<lparr>pandas_installed = True, openpyxl_installed = True, save_failure = None,
           clock = 86400, stdout_accepts = (\<lambda>line. False), encode_error = (\<lambda>line. ''ascii'')\<rparr>"
        "\<lparr>files = Map.empty, stdout = []\<rparr>"
        "\<lparr>files = [filename \<mapsto> Workbook 7], stdout = [''earlier output'']\<rparr>"]
  by simp

subsection \<open>Failures\<close>

text \<open>
  The function never raises \<open>ImportError\<close>, so the first handler of the main block
  never runs. A failure to write the file is reported by the second handler with its
  message, and the script completes, when the standard output can encode the report;
  when it cannot, the handler's own \<open>print\<close> raises and the exception is uncaught.
  The same happens after a successful save when the output cannot encode the lines of
  the summary.
\<close>

lemma py_print_raises:
  "\<forall>st e. fst (py_print env line st) = Some e \<longrightarrow> \<not> is_ImportError e"
  by (auto simp add: py_print_def split: if_splits)

lemma wb_save_raises:
  "\<forall>st e. fst (wb_save env name wb st) = Some e \<longrightarrow> \<not> is_ImportError e"
  by (auto simp add: wb_save_def split: option.splits)

lemma seq_raises:
  assumes "\<forall>st e. fst (a st) = Some e \<longrightarrow> \<not> is_ImportError e"
    and "\<forall>st e. fst (b st) = Some e \<longrightarrow> \<not> is_ImportError e"
  shows "\<forall>st e. fst (seq a b st) = Some e \<longrightarrow> \<not> is_ImportError e"
proof (intro allI impI)
  fix st e
  assume raised: "fst (seq a b st) = Some e"
  obtain r st' where a: "a st = (r, st')"
    by (cases "a st")
  show "\<not> is_ImportError e"
  proof (cases r)
    case None
    then have "fst (b st') = Some e"
      using raised a by (simp add: seq_def)
    then show ?thesis
      using assms(2) by blast
  next
    case (Some e')
    then have "fst (a st) = Some e" 
      using raised a by (simp add: seq_def)
    then show ?thesis
      using assms(1) by blast
  qed
qed

lemma never_ImportError:
  "is_ImportError e \<Longrightarrow> fst (create_bulk_shipments_template env st) \<noteq> Some e"
proof -
  obtain wb where wb: "build_workbook (clock env) = Inr wb"
    using build_workbook_ok by blast
  have "\<forall>st e. fst (create_bulk_shipments_template env st) = Some e \<longrightarrow> \<not> is_ImportError e"
    unfolding create_bulk_shipments_template_def wb sum.case
    by (intro seq_raises wb_save_raises py_print_raises)
  then show "is_ImportError e \<Longrightarrow> fst (create_bulk_shipments_template env st) \<noteq> Some e"
    by blast
qed

lemma save_failure_reported:
  assumes "pandas_installed env" "openpyxl_installed env" "save_failure env = Some msg"
  shows "run_script env st =
     (if stdout_accepts env (cross_mark @ '' Error creating template: '' @ msg)
      then (Completed,
            st\<lparr>stdout := stdout st @ [cross_mark @ '' Error creating template: '' @ msg]\<rparr>)
      else (Uncaught (UnicodeEncodeError
              (encode_error env (cross_mark @ '' Error creating template: '' @ msg))), st))"
proof -
  obtain wb where wb: "build_workbook (clock env) = Inr wb"
    using build_workbook_ok by blast
  have "create_bulk_shipments_template env st = (Some (OSError msg), st)"
    unfolding create_bulk_shipments_template_def wb sum.case
    by (subst seq_def) (simp add: wb_save_def assms(3))
  then show ?thesis
    by (simp add: run_script_def main_block_def py_print_def assms)
qed

lemma unencodable_summary_uncaught:
  assumes "pandas_installed env" "openpyxl_installed env" "save_failure env = None"
    and "stdout_accepts env = (\<lambda>line. False)"
  shows "\<exists>wb m. build_workbook (clock env) = Inr wb
     \<and> run_script env st =
         (Uncaught (UnicodeEncodeError m), st\<lparr>files := (files st)(filename \<mapsto> wb)\<rparr>)"
proof -
  obtain wb where wb: "build_workbook (clock env) = Inr wb"
    using build_workbook_ok by blast
  have "\<exists>m. create_bulk_shipments_template env st =
      (Some (UnicodeEncodeError m), st\<lparr>files := (files st)(filename \<mapsto> wb)\<rparr>)"
    unfolding create_bulk_shipments_template_def wb sum.case
    by (simp add: seq_def wb_save_def py_print_def assms(3,4))
  then obtain m where "create_bulk_shipments_template env st =
      (Some (UnicodeEncodeError m), st\<lparr>files := (files st)(filename \<mapsto> wb)\<rparr>)"
    by blast
  then have "\<exists>m'. run_script env st =
      (Uncaught (UnicodeEncodeError m'), st\<lparr>files := (files st)(filename \<mapsto> wb)\<rparr>)"
    by (simp add: run_script_def main_block_def py_print_def assms)
  with wb show ?thesis by blast
qed

text \<open>
  Claim C8, at the input where it fails. With openpyxl missing, the import statement
  at the top of the module raises before the \<open>try\<close> block is entered: the exception
  reaches the top level uncaught and nothing is printed, in particular no
  installation hint, whatever else the environment is like.
\<close>

theorem missing_library_uncaught:
  "run_script \<lparr>pandas_installed = True, openpyxl_installed = False, save_failure = failure,
       clock = now, stdout_accepts = acc, encode_error = msg\<rparr> st =
     (Uncaught (ImportError (''No module named 'openpyxl'' @ [CHR 0x27])), st)"
  by (simp add: run_script_def)

end
